theory Spec2Isabelle
  imports Complex_Main "HOL-Library.Char_ord" "HOL-Library.List_Lexorder"
    "HOL-Library.Product_Lexorder" "HOL-Library.Log_Nat"
begin

section \<open>Data model\<close>

text \<open>
  The two programs (\<^verbatim>\<open>DS.py\<close>, the dashboard, and \<^verbatim>\<open>starter package.py\<close>, the
  report) work on one pandas DataFrame read from \<^verbatim>\<open>data.csv\<close>. A frame is modelled
  as the list of its rows, in index order. A cell that pandas holds as NaN (a missing
  value) is \<open>None\<close>. The columns the code reads are fields of their own; every other
  column of the file (stock code, customer, country) is kept in \<open>Other\<close>, because
  \<^verbatim>\<open>drop_duplicates\<close> and \<^verbatim>\<open>dropna\<close> look at all columns.

  \<^verbatim>\<open>Quantity\<close> is an int64 column and \<^verbatim>\<open>UnitPrice\<close> a float64 column. A float64 value
  is modelled by the rational number it denotes, a float NaN is \<open>None\<close>; every
  operation on float64 values rounds its exact result to binary64, see below.
\<close>

record timestamp =
  year :: nat
  month :: nat
  day :: nat
  hour :: nat
  minute :: nat
  second :: nat

text \<open>
  The type parameter \<open>'d\<close> is the type of the \<^verbatim>\<open>InvoiceDate\<close> column: \<open>string\<close> as
  read from the file, \<open>timestamp\<close> once \<^verbatim>\<open>pd.to_datetime\<close> has been assigned to it.
\<close>

record 'd row =
  InvoiceNo :: "string option"
  Description :: "string option"
  Quantity :: "int option"
  InvoiceDate :: "'d option"
  UnitPrice :: "rat option"
  Other :: "string option list"

text \<open>
  A frame with the two derived columns. \<open>'m\<close> is the type of the \<^verbatim>\<open>Month\<close> column:
  a string in \<^verbatim>\<open>DS.py\<close> (\<^verbatim>\<open>.astype(str)\<close>), a monthly period (NaT is \<open>None\<close>) in
  \<^verbatim>\<open>starter package.py\<close>.
\<close>

record ('d, 'm) prepared = "'d row" +
  TotalPrice :: "rat option"
  Month :: 'm

type_synonym period = "nat \<times> nat"

datatype error = InvalidTimestamp | KeyError

section \<open>float64 arithmetic\<close>

text \<open>
  IEEE 754 binary64, round to nearest, ties to even. \<open>expo x\<close> is the exponent of the
  binade of \<open>x\<close>: \<open>2 powi expo x \<le> \<bar>x\<bar> < 2 powi (expo x + 1)\<close>. A result is rounded to a
  multiple of the unit in the last place, which is \<open>2 powi (expo x - 52)\<close> for a
  significand of 53 bits and \<open>2 powi (- 1074)\<close> below the normal range. Overflow to
  infinity and the sign of zero are not modelled.
\<close>

definition expo :: "rat \<Rightarrow> int" where
  "expo x = (if 1 \<le> \<bar>x\<bar> then bitlen \<lfloor>\<bar>x\<bar>\<rfloor> - 1 else - bitlen (\<lceil>1 / \<bar>x\<bar>\<rceil> - 1))"

definition round_half_even :: "rat \<Rightarrow> int" where
  "round_half_even r =
     (let f = \<lfloor>r\<rfloor>; d = r - of_int f
      in if d < 1 / 2 then f else if 1 / 2 < d then f + 1 else if even f then f else f + 1)"

definition round64 :: "rat \<Rightarrow> rat" where
  "round64 x =
     (if x = 0 then 0
      else let q = max (expo x) (- 1022) - 52
           in of_int (round_half_even (x / 2 powi q)) * 2 powi q)"

definition fadd :: "rat \<Rightarrow> rat \<Rightarrow> rat" where
  "fadd a b = round64 (a + b)"

definition fmul :: "rat \<Rightarrow> rat \<Rightarrow> rat" where
  "fmul a b = round64 (a * b)"

definition fdiv :: "rat \<Rightarrow> rat \<Rightarrow> rat" where
  "fdiv a b = round64 (a / b)"

section \<open>The pandas operations the programs call\<close>

text \<open>\<^verbatim>\<open>Series.dropna()\<close>: the values that are present, in order.\<close>

fun notna :: "'a option list \<Rightarrow> 'a list" where
  "notna [] = []"
| "notna (None # cs) = notna cs"
| "notna (Some x # cs) = x # notna cs"

text \<open>
  \<^verbatim>\<open>DataFrame.drop_duplicates()\<close> (\<^verbatim>\<open>keep='first'\<close>, all columns): a row is dropped
  when an equal row was seen before it. Two missing cells count as equal.
\<close>

fun keep_first :: "'a list \<Rightarrow> 'a list \<Rightarrow> 'a list" where
  "keep_first seen [] = []"
| "keep_first seen (x # xs) =
     (if x \<in> set seen then keep_first seen xs else x # keep_first (x # seen) xs)"

definition drop_duplicates :: "'a list \<Rightarrow> 'a list" where
  "drop_duplicates df = keep_first [] df"

text \<open>\<^verbatim>\<open>DataFrame.dropna()\<close> (\<^verbatim>\<open>how='any'\<close>): a row with a missing cell in any column is dropped.\<close>

definition has_na :: "'d row \<Rightarrow> bool" where
  "has_na r \<longleftrightarrow>
     InvoiceNo r = None \<or> Description r = None \<or> Quantity r = None \<or>
     InvoiceDate r = None \<or> UnitPrice r = None \<or> None \<in> set (Other r)"

definition dropna :: "'d row list \<Rightarrow> 'd row list" where
  "dropna df = filter (\<lambda>r. \<not> has_na r) df"

text \<open>
  \<^verbatim>\<open>pd.to_datetime(column)\<close> with the default \<^verbatim>\<open>errors='raise'\<close>. The parser of one
  string is a parameter (\<open>None\<close>: the string is not a date); a missing cell becomes NaT.
  The first string that does not parse raises, and no column is returned.
\<close>

fun to_datetime ::
  "(string \<Rightarrow> timestamp option) \<Rightarrow> string option list \<Rightarrow> error + timestamp option list" where
  "to_datetime parse [] = Inr []"
| "to_datetime parse (None # cs) =
     (case to_datetime parse cs of Inl e \<Rightarrow> Inl e | Inr ts \<Rightarrow> Inr (None # ts))"
| "to_datetime parse (Some s # cs) =
     (case parse s of
        None \<Rightarrow> Inl InvalidTimestamp
      | Some t \<Rightarrow>
          (case to_datetime parse cs of Inl e \<Rightarrow> Inl e | Inr ts \<Rightarrow> Inr (Some t # ts)))"

text \<open>
  \<^verbatim>\<open>Quantity * UnitPrice\<close>, cell by cell: the int64 quantity is converted to float64
  and the two are multiplied in float64. NaN when either operand is NaN.
\<close>

fun mul_cells :: "int option \<Rightarrow> rat option \<Rightarrow> rat option" where
  "mul_cells (Some q) (Some p) = Some (fmul (round64 (of_int q)) p)"
| "mul_cells _ _ = None"

text \<open>\<^verbatim>\<open>.dt.to_period("M")\<close>: the year and month of the timestamp; NaT stays NaT.\<close>

fun to_period :: "timestamp option \<Rightarrow> period option" where
  "to_period None = None"
| "to_period (Some t) = Some (year t, month t)"

text \<open>\<^verbatim>\<open>.astype(str)\<close> of a monthly period: \<^verbatim>\<open>%Y-%m\<close>, zero padded.\<close>

definition digit :: "nat \<Rightarrow> char" where
  "digit d = ''0123456789'' ! (d mod 10)"

fun digits :: "nat \<Rightarrow> string" where
  "digits n = (if n < 10 then [digit n] else digits (n div 10) @ [digit n])"

declare digits.simps [simp del]

definition zfill :: "nat \<Rightarrow> string \<Rightarrow> string" where
  "zfill w s = replicate (w - length s) (CHR ''0'') @ s"

fun period_str :: "period option \<Rightarrow> string" where
  "period_str None = ''NaT''"
| "period_str (Some (y, m)) = zfill 4 (digits y) @ ''-'' @ zfill 2 (digits m)"

text \<open>
  \<^verbatim>\<open>Series.sum()\<close> and \<^verbatim>\<open>Series.mean()\<close> of a float64 column. Both skip NaN. The sum
  starts at 0 and adds the values in row order, rounding after every addition; the mean
  is that sum divided in float64 by the number of values present, NaN when there is
  none. (For long columns numpy adds in blocks; that is another order of the same
  rounded additions.)
\<close>

fun add_cell :: "rat \<Rightarrow> rat option \<Rightarrow> rat" where
  "add_cell acc None = acc"
| "add_cell acc (Some v) = fadd acc v"

definition series_sum :: "rat option list \<Rightarrow> rat" where
  "series_sum col = foldl add_cell 0 col"

definition series_mean :: "rat option list \<Rightarrow> rat option" where
  "series_mean col =
     (case notna col of
        [] \<Rightarrow> None
      | x # xs \<Rightarrow> Some (fdiv (series_sum col) (of_nat (length (x # xs)))))"

text \<open>\<^verbatim>\<open>Series.nunique()\<close>: the number of distinct values present.\<close>

definition nunique :: "'a option list \<Rightarrow> nat" where
  "nunique col = length (drop_duplicates (notna col))"

text \<open>
  Grouping: one pass over the (key, cell) pairs that keeps, for every key in order of
  first appearance, the running aggregate. The aggregate of a group starts at \<open>z\<close> and
  takes in every cell of the group with \<open>step\<close>, in row order.
\<close>

fun accumulate ::
  "('v \<Rightarrow> 'c \<Rightarrow> 'v) \<Rightarrow> 'v \<Rightarrow> 'k \<Rightarrow> 'c \<Rightarrow> ('k \<times> 'v) list \<Rightarrow> ('k \<times> 'v) list" where
  "accumulate step z k c [] = [(k, step z c)]"
| "accumulate step z k c ((k', w) # acc) =
     (if k' = k then (k', step w c) # acc else (k', w) # accumulate step z k c acc)"

definition group_reduce ::
  "('v \<Rightarrow> 'c \<Rightarrow> 'v) \<Rightarrow> 'v \<Rightarrow> ('k \<times> 'c) list \<Rightarrow> ('k \<times> 'v) list" where
  "group_reduce step z kcs = foldl (\<lambda>acc (k, c). accumulate step z k c acc) [] kcs"

text \<open>
  \<^verbatim>\<open>Series.value_counts()\<close>: the count of every value that is present, sorted by
  descending count. The counts are collected in order of first appearance; pandas
  sorts them descending by reversing, sorting ascending and reversing back. The
  ascending sort is numpy's default one (\<^verbatim>\<open>kind='quicksort'\<close>), which is not stable: the
  code does not fix the order in which it leaves equal counts. That order is the
  parameter \<open>tie\<close>: of two values with equal counts the one with the larger \<open>tie\<close> comes
  first in the result, and two with the same \<open>tie\<close> stay in the order of their first
  appearance. Every order of the values of equal count is the result for some \<open>tie\<close>, so
  that a property proved for every \<open>tie\<close> holds whatever the sort does with equal counts.
\<close>

definition value_counts :: "('a \<Rightarrow> nat) \<Rightarrow> 'a option list \<Rightarrow> ('a \<times> nat) list" where
  "value_counts tie col =
     rev (sort_key (\<lambda>(x, n). (n, tie x))
       (rev (group_reduce (\<lambda>n _. Suc n) 0 (map (\<lambda>x. (x, ())) (notna col)))))"

definition head :: "nat \<Rightarrow> 'a list \<Rightarrow> 'a list" where
  "head n df = take n df"

text \<open>
  \<^verbatim>\<open>df.groupby(key)[value].sum()\<close>: one entry per key, the keys sorted ascending, the
  float64 sum of a group in row order, skipping NaN. (The compensation term with which
  recent versions of pandas add a group is not modelled.)
\<close>

definition groupby_sum :: "'k::linorder list \<Rightarrow> rat option list \<Rightarrow> ('k \<times> rat) list" where
  "groupby_sum keys vals = sort_key fst (group_reduce add_cell 0 (zip keys vals))"

text \<open>\<^verbatim>\<open>df[df["Month"].isin(selected_months)]\<close>\<close>

definition isin :: "'m list \<Rightarrow> ('d, 'm) prepared list \<Rightarrow> ('d, 'm) prepared list" where
  "isin selected_months df = filter (\<lambda>r. Month r \<in> set selected_months) df"

section \<open>Record Loader and Feature Deriver\<close>

text \<open>\<^verbatim>\<open>clean_data\<close> (starter package.py, lines 28-37).\<close>

definition clean_data :: "'d row list \<Rightarrow> 'd row list" where
  "clean_data df = dropna (drop_duplicates df)"

text \<open>
  The three column assignments of the deriver on the rows of a frame: the parsed
  \<^verbatim>\<open>InvoiceDate\<close> replaces the text, \<^verbatim>\<open>TotalPrice\<close> and \<^verbatim>\<open>Month\<close> are attached.
\<close>

definition assign_columns ::
  "(period option \<Rightarrow> 'm) \<Rightarrow> string row \<Rightarrow> timestamp option \<Rightarrow> (timestamp, 'm) prepared" where
  "assign_columns as_month r t =
     \<lparr>InvoiceNo = InvoiceNo r, Description = Description r, Quantity = Quantity r,
      InvoiceDate = t, UnitPrice = UnitPrice r, Other = Other r,
      TotalPrice = mul_cells (Quantity r) (UnitPrice r),
      Month = as_month (to_period t)\<rparr>"

definition derive ::
  "(string \<Rightarrow> timestamp option) \<Rightarrow> (period option \<Rightarrow> 'm) \<Rightarrow> string row list \<Rightarrow>
     error + (timestamp, 'm) prepared list" where
  "derive parse as_month df =
     (case to_datetime parse (map InvoiceDate df) of
        Inl e \<Rightarrow> Inl e
      | Inr ts \<Rightarrow> Inr (map2 (assign_columns as_month) df ts))"

text \<open>
  \<^verbatim>\<open>load_and_prepare_data\<close> (DS.py, lines 13-23), from the frame \<^verbatim>\<open>read_csv\<close> returned.
  The frame it changes is its own local one.
\<close>

definition load_and_prepare_data ::
  "(string \<Rightarrow> timestamp option) \<Rightarrow> string row list \<Rightarrow> error + (timestamp, string) prepared list" where
  "load_and_prepare_data parse df = derive parse period_str (dropna (drop_duplicates df))"

text \<open>
  Frames and the tables made of them are objects in a store, found by their address; a
  name of the program holds an address. \<open>Free\<close> is an address with no object. The
  objects are: a frame as loaded; a frame with the derived columns, \<^verbatim>\<open>Month\<close> a period
  (starter package.py) or a string (DS.py); a table of counts with its two column
  labels; a series of sums labelled by periods or by strings.
\<close>

datatype frame =
  Free
| Loaded "string row list"
| Prepared "(timestamp, period option) prepared list"
| Dashboard "(timestamp, string) prepared list"
| Counts "string \<times> string" "(string \<times> nat) list"
| PeriodSums "(period \<times> rat) list"
| Sums "(string \<times> rat) list"

type_synonym ref = nat
type_synonym store = "ref \<Rightarrow> frame"

text \<open>
  \<^verbatim>\<open>prepare_features(df)\<close> (starter package.py, lines 44-49) assigns the columns of the
  frame object it is given and returns that object. On a frame that has the derived
  columns already, \<^verbatim>\<open>InvoiceDate\<close> is left as it is and the two derived columns are
  computed again. An object without these columns raises \<^verbatim>\<open>KeyError\<close>.
\<close>

definition reassign_columns ::
  "(timestamp, 'm) prepared \<Rightarrow> (timestamp, period option) prepared" where
  "reassign_columns r =
     \<lparr>InvoiceNo = InvoiceNo r, Description = Description r, Quantity = Quantity r,
      InvoiceDate = InvoiceDate r, UnitPrice = UnitPrice r, Other = Other r,
      TotalPrice = mul_cells (Quantity r) (UnitPrice r),
      Month = to_period (InvoiceDate r)\<rparr>"

definition prepare_features ::
  "(string \<Rightarrow> timestamp option) \<Rightarrow> ref \<Rightarrow> store \<Rightarrow> error + (ref \<times> store)" where
  "prepare_features parse df s =
     (case s df of
        Loaded rows \<Rightarrow>
          (case derive parse (\<lambda>p. p) rows of
             Inl e \<Rightarrow> Inl e
           | Inr rows' \<Rightarrow> Inr (df, s(df := Prepared rows')))
      | Prepared rows' \<Rightarrow> Inr (df, s(df := Prepared (map reassign_columns rows')))
      | Dashboard rows' \<Rightarrow> Inr (df, s(df := Prepared (map reassign_columns rows')))
      | _ \<Rightarrow> Inl KeyError)"

section \<open>Metric Engine and Aggregation Engine\<close>

text \<open>\<^verbatim>\<open>calculate_kpis\<close> (DS.py, lines 30-35).\<close>

definition calculate_kpis :: "('d, 'm) prepared list \<Rightarrow> rat \<times> rat option \<times> nat" where
  "calculate_kpis df =
     (let total_revenue = series_sum (map TotalPrice df);
          average_sale = series_mean (map TotalPrice df);
          total_orders = nunique (map InvoiceNo df)
      in (total_revenue, average_sale, total_orders))"

text \<open>The two chart tables of \<^verbatim>\<open>update_dashboard\<close> (DS.py, lines 117-122 and 141-146).\<close>

definition top_products ::
  "(string \<Rightarrow> nat) \<Rightarrow> ('d, 'm) prepared list \<Rightarrow> (string \<times> nat) list" where
  "top_products tie filtered_df = head 10 (value_counts tie (map Description filtered_df))"

definition monthly_sales :: "('d, string) prepared list \<Rightarrow> (string \<times> rat) list" where
  "monthly_sales filtered_df = groupby_sum (map Month filtered_df) (map TotalPrice filtered_df)"

text \<open>
  \<^verbatim>\<open>update_dashboard\<close> (DS.py, lines 103-163) up to the rendering: the metrics and the
  two chart tables of the rows whose month is selected.
\<close>

definition update_dashboard ::
  "(string \<Rightarrow> nat) \<Rightarrow> ('d, string) prepared list \<Rightarrow> string list \<Rightarrow>
     (rat \<times> rat option \<times> nat) \<times> (string \<times> nat) list \<times> (string \<times> rat) list" where
  "update_dashboard tie df selected_months =
     (let filtered_df = isin selected_months df
      in (calculate_kpis filtered_df, top_products tie filtered_df, monthly_sales filtered_df))"


text \<open>
  \<^verbatim>\<open>create_line_chart\<close> (starter package.py, lines 87-103): the series that is plotted.
  \<^verbatim>\<open>Month\<close> is a period here; \<^verbatim>\<open>groupby\<close> leaves out the rows whose key is NaT and
  sorts the periods, and the index is turned into strings afterwards.
\<close>

definition create_line_chart :: "('d, period option) prepared list \<Rightarrow> (string \<times> rat) list" where
  "create_line_chart df =
     (let dated = filter (\<lambda>r. Month r \<noteq> None) df;
          monthly_sales = groupby_sum (notna (map Month dated)) (map TotalPrice dated)
      in map (\<lambda>(p, amount). (period_str (Some p), amount)) monthly_sales)"

text \<open>
  The same two functions on the objects of the store, with the assignments they make.
  Every object they assign to is one they have just made; \<open>filtered_at\<close>, \<open>top_at\<close>
  and \<open>monthly_at\<close> are the addresses at which the new objects are made.

  \<^verbatim>\<open>update_dashboard\<close>: \<^verbatim>\<open>filtered_df = df[...]\<close> is a new frame (DS.py, line 105);
  \<^verbatim>\<open>top_products\<close> is a new table, whose column labels are then assigned (lines
  117-123; the labels \<^verbatim>\<open>reset_index\<close> gives are those of pandas 2);
  \<^verbatim>\<open>monthly_sales\<close> is a new table (lines 141-146).
\<close>

definition update_dashboard_in ::
  "(string \<Rightarrow> nat) \<Rightarrow> ref \<Rightarrow> string list \<Rightarrow> ref \<Rightarrow> ref \<Rightarrow> ref \<Rightarrow> store \<Rightarrow>
     error + (((rat \<times> rat option \<times> nat) \<times> frame \<times> frame) \<times> store)" where
  "update_dashboard_in tie df selected_months filtered_at top_at monthly_at s =
     (case s df of
        Dashboard rows \<Rightarrow>
          (let filtered_df = isin selected_months rows;
               s1 = s(filtered_at := Dashboard filtered_df);
               kpis = calculate_kpis filtered_df;
               s2 = s1(top_at := Counts (''Description'', ''count'') (top_products tie filtered_df));
               s3 = s2(top_at := Counts (''Product'', ''Orders'') (top_products tie filtered_df));
               s4 = s3(monthly_at := Sums (monthly_sales filtered_df))
           in Inr ((kpis, s4 top_at, s4 monthly_at), s4))
      | _ \<Rightarrow> Inl KeyError)"

text \<open>
  \<^verbatim>\<open>create_line_chart\<close>: \<^verbatim>\<open>monthly_sales\<close> is a new series labelled by periods, whose
  index is then assigned the strings of the periods (starter package.py, lines 88-89).
\<close>

definition create_line_chart_in :: "ref \<Rightarrow> ref \<Rightarrow> store \<Rightarrow> error + (frame \<times> store)" where
  "create_line_chart_in df monthly_at s =
     (case s df of
        Prepared rows \<Rightarrow>
          (let dated = filter (\<lambda>r. Month r \<noteq> None) rows;
               s1 = s(monthly_at := PeriodSums (groupby_sum (notna (map Month dated)) (map TotalPrice dated)));
               s2 = s1(monthly_at := Sums (create_line_chart rows))
           in Inr (s2 monthly_at, s2))
      | _ \<Rightarrow> Inl KeyError)"

section \<open>Notions used to state the properties\<close>


text \<open>A row whose \<^verbatim>\<open>InvoiceDate\<close> text the parser rejects.\<close>

definition unparseable :: "(string \<Rightarrow> timestamp option) \<Rightarrow> string row \<Rightarrow> bool" where
  "unparseable parse r \<longleftrightarrow> (case InvoiceDate r of None \<Rightarrow> False | Some text \<Rightarrow> parse text = None)"


text \<open>
  A column of whole amounts whose absolute values add up to less than \<open>2 ^ 53\<close>: no
  float64 addition of such amounts rounds.
\<close>

definition whole_amounts :: "rat option list \<Rightarrow> bool" where
  "whole_amounts col \<longleftrightarrow> list_all (\<lambda>x. x \<in> \<int>) (notna col) \<and> (\<Sum>x\<leftarrow>notna col. \<bar>x\<bar>) < 2 ^ 53"



section \<open>Worked example\<close>

text \<open>
  Order 536365 has two lines in December 2010, order 536366 one line in January 2011,
  order C536379 is a return. \<open>line_nan\<close> has no unit price. The parser of the example
  knows the three date strings that occur.
\<close>

definition example_parse :: "string \<Rightarrow> timestamp option" where
  "example_parse = map_of
     [(''12/1/2010 8:26'', \<lparr>year = 2010, month = 12, day = 1, hour = 8, minute = 26, second = 0\<rparr>),
      (''1/4/2011 10:00'', \<lparr>year = 2011, month = 1, day = 4, hour = 10, minute = 0, second = 0\<rparr>),
      (''1/4/2011 10:15'', \<lparr>year = 2011, month = 1, day = 4, hour = 10, minute = 15, second = 0\<rparr>)]"

definition line_a1 :: "string row" where
  "line_a1 = \<lparr>InvoiceNo = Some ''536365'', Description = Some ''MUG'', Quantity = Some 3,
     InvoiceDate = Some ''12/1/2010 8:26'', UnitPrice = Some 2, Other = [Some ''17850'']\<rparr>"


definition line_b :: "string row" where
  "line_b = \<lparr>InvoiceNo = Some ''536366'', Description = Some ''CUP'', Quantity = Some 2,
     InvoiceDate = Some ''1/4/2011 10:00'', UnitPrice = Some 10, Other = [Some ''13047'']\<rparr>"

definition line_return :: "string row" where
  "line_return = \<lparr>InvoiceNo = Some ''C536379'', Description = Some ''MUG'', Quantity = Some (- 4),
     InvoiceDate = Some ''1/4/2011 10:15'', UnitPrice = Some 2, Other = [Some ''14527'']\<rparr>"

definition line_nan :: "string row" where
  "line_nan = \<lparr>InvoiceNo = Some ''536367'', Description = Some ''JAR'', Quantity = Some 6,
     InvoiceDate = Some ''1/4/2011 10:00'', UnitPrice = None, Other = [Some ''13047'']\<rparr>"

definition line_bad_date :: "string row" where
  "line_bad_date = \<lparr>InvoiceNo = Some ''536368'', Description = Some ''JAR'', Quantity = Some 6,
     InvoiceDate = Some ''yesterday'', UnitPrice = Some 1, Other = [Some ''13047'']\<rparr>"

text \<open>
  The frame \<^verbatim>\<open>load_and_prepare_data\<close> makes of these lines, and a frame of twelve lines
  with eleven different descriptions.
\<close>

definition sale_a1 :: "(timestamp, string) prepared" where
  "sale_a1 = \<lparr>InvoiceNo = Some ''536365'', Description = Some ''MUG'', Quantity = Some 3,
     InvoiceDate = Some \<lparr>year = 2010, month = 12, day = 1, hour = 8, minute = 26, second = 0\<rparr>,
     UnitPrice = Some 2, Other = [Some ''17850''], TotalPrice = Some 6, Month = ''2010-12''\<rparr>"

definition sale_a2 :: "(timestamp, string) prepared" where
  "sale_a2 = \<lparr>InvoiceNo = Some ''536365'', Description = Some ''CUP'', Quantity = Some 1,
     InvoiceDate = Some \<lparr>year = 2010, month = 12, day = 1, hour = 8, minute = 26, second = 0\<rparr>,
     UnitPrice = Some 5, Other = [Some ''17850''], TotalPrice = Some 5, Month = ''2010-12''\<rparr>"

definition sale_b :: "(timestamp, string) prepared" where
  "sale_b = \<lparr>InvoiceNo = Some ''536366'', Description = Some ''CUP'', Quantity = Some 2,
     InvoiceDate = Some \<lparr>year = 2011, month = 1, day = 4, hour = 10, minute = 0, second = 0\<rparr>,
     UnitPrice = Some 10, Other = [Some ''13047''], TotalPrice = Some 20, Month = ''2011-01''\<rparr>"

definition sale_return :: "(timestamp, string) prepared" where
  "sale_return = \<lparr>InvoiceNo = Some ''C536379'', Description = Some ''MUG'', Quantity = Some (- 4),
     InvoiceDate = Some \<lparr>year = 2011, month = 1, day = 4, hour = 10, minute = 15, second = 0\<rparr>,
     UnitPrice = Some 2, Other = [Some ''14527''], TotalPrice = Some (- 8), Month = ''2011-01''\<rparr>"



text \<open>
  The same lines as \<^verbatim>\<open>prepare_features\<close> of starter package.py leaves them, with a
  monthly period in \<^verbatim>\<open>Month\<close>, and a store with two loaded frames.
\<close>

definition report_a1 :: "(timestamp, period option) prepared" where
  "report_a1 = \<lparr>InvoiceNo = Some ''536365'', Description = Some ''MUG'', Quantity = Some 3,
     InvoiceDate = Some \<lparr>year = 2010, month = 12, day = 1, hour = 8, minute = 26, second = 0\<rparr>,
     UnitPrice = Some 2, Other = [Some ''17850''], TotalPrice = Some 6, Month = Some (2010, 12)\<rparr>"

definition report_return :: "(timestamp, period option) prepared" where
  "report_return = \<lparr>InvoiceNo = Some ''C536379'', Description = Some ''MUG'', Quantity = Some (- 4),
     InvoiceDate = Some \<lparr>year = 2011, month = 1, day = 4, hour = 10, minute = 15, second = 0\<rparr>,
     UnitPrice = Some 2, Other = [Some ''14527''], TotalPrice = Some (- 8), Month = Some (2011, 1)\<rparr>"

definition example_store :: store where
  "example_store = (\<lambda>_. Free)(0 := Loaded [line_a1, line_return], 1 := Loaded [line_a1, line_bad_date])"

text \<open>
  The float64 values nearest to 0.1, 0.2 and 0.3, the float64 values 0.30000000000000004,
  0.6 and 0.6000000000000001, and lines with these unit prices: three pieces at 0.1 in
  December 2010, and one piece each at 0.1 in December 2010 and at 0.2 and 0.3 in
  January 2011.
\<close>

definition tenth :: rat where
  "tenth = 3602879701896397 / 2 ^ 55"

definition two_tenths :: rat where
  "two_tenths = 3602879701896397 / 2 ^ 54"

definition three_tenths :: rat where
  "three_tenths = 5404319552844595 / 2 ^ 54"

definition three_tenths_up :: rat where
  "three_tenths_up = 5404319552844596 / 2 ^ 54"

definition six_tenths :: rat where
  "six_tenths = 5404319552844595 / 2 ^ 53"

definition six_tenths_up :: rat where
  "six_tenths_up = 5404319552844596 / 2 ^ 53"

definition line_three :: "string row" where
  "line_three = \<lparr>InvoiceNo = Some ''536370'', Description = Some ''PIN'', Quantity = Some 3,
     InvoiceDate = Some ''12/1/2010 8:26'', UnitPrice = Some tenth, Other = [Some ''12583'']\<rparr>"

definition sale_three :: "(timestamp, string) prepared" where
  "sale_three = \<lparr>InvoiceNo = Some ''536370'', Description = Some ''PIN'', Quantity = Some 3,
     InvoiceDate = Some \<lparr>year = 2010, month = 12, day = 1, hour = 8, minute = 26, second = 0\<rparr>,
     UnitPrice = Some tenth, Other = [Some ''12583''], TotalPrice = Some three_tenths_up,
     Month = ''2010-12''\<rparr>"

definition report_three :: "(timestamp, period option) prepared" where
  "report_three = \<lparr>InvoiceNo = Some ''536370'', Description = Some ''PIN'', Quantity = Some 3,
     InvoiceDate = Some \<lparr>year = 2010, month = 12, day = 1, hour = 8, minute = 26, second = 0\<rparr>,
     UnitPrice = Some tenth, Other = [Some ''12583''], TotalPrice = Some three_tenths_up,
     Month = Some (2010, 12)\<rparr>"

definition line_pin :: "string row" where
  "line_pin = \<lparr>InvoiceNo = Some ''536371'', Description = Some ''PIN'', Quantity = Some 1,
     InvoiceDate = Some ''12/1/2010 8:26'', UnitPrice = Some tenth, Other = [Some ''12583'']\<rparr>"

definition line_nut :: "string row" where
  "line_nut = \<lparr>InvoiceNo = Some ''536372'', Description = Some ''NUT'', Quantity = Some 1,
     InvoiceDate = Some ''1/4/2011 10:00'', UnitPrice = Some two_tenths, Other = [Some ''12583'']\<rparr>"

definition line_bolt :: "string row" where
  "line_bolt = \<lparr>InvoiceNo = Some ''536372'', Description = Some ''BOLT'', Quantity = Some 1,
     InvoiceDate = Some ''1/4/2011 10:15'', UnitPrice = Some three_tenths, Other = [Some ''12583'']\<rparr>"

definition sale_pin :: "(timestamp, string) prepared" where
  "sale_pin = \<lparr>InvoiceNo = Some ''536371'', Description = Some ''PIN'', Quantity = Some 1,
     InvoiceDate = Some \<lparr>year = 2010, month = 12, day = 1, hour = 8, minute = 26, second = 0\<rparr>,
     UnitPrice = Some tenth, Other = [Some ''12583''], TotalPrice = Some tenth,
     Month = ''2010-12''\<rparr>"

definition sale_nut :: "(timestamp, string) prepared" where
  "sale_nut = \<lparr>InvoiceNo = Some ''536372'', Description = Some ''NUT'', Quantity = Some 1,
     InvoiceDate = Some \<lparr>year = 2011, month = 1, day = 4, hour = 10, minute = 0, second = 0\<rparr>,
     UnitPrice = Some two_tenths, Other = [Some ''12583''], TotalPrice = Some two_tenths,
     Month = ''2011-01''\<rparr>"

definition sale_bolt :: "(timestamp, string) prepared" where
  "sale_bolt = \<lparr>InvoiceNo = Some ''536372'', Description = Some ''BOLT'', Quantity = Some 1,
     InvoiceDate = Some \<lparr>year = 2011, month = 1, day = 4, hour = 10, minute = 15, second = 0\<rparr>,
     UnitPrice = Some three_tenths, Other = [Some ''12583''], TotalPrice = Some three_tenths,
     Month = ''2011-01''\<rparr>"

text \<open>
  Two ways of ordering descriptions with equal counts: one leaves them in the order of
  their first appearance, the other puts \<open>CUP\<close> before every other description.
\<close>

definition by_first_seen :: "string \<Rightarrow> nat" where
  "by_first_seen d = 0"


text \<open>A store with a dashboard frame and a report frame.\<close>

definition served_store :: store where
  "served_store = (\<lambda>_. Free)(0 := Dashboard [sale_a1, sale_a2, sale_b, sale_return],
     1 := Prepared [report_return, report_a1])"

section \<open>Lemmas on float64 arithmetic\<close>

lemma expo_bounds_large:
  assumes "1 \<le> \<bar>x\<bar>"
  shows "2 powi (expo x) \<le> \<bar>x\<bar>" and "\<bar>x\<bar> < 2 powi (expo x + 1)" and "0 \<le> expo x"
proof -
  let ?m = "\<lfloor>\<bar>x\<bar>\<rfloor>"
  have m: "0 < ?m" using assms by simp
  have e: "expo x = bitlen ?m - 1" using assms by (simp add: expo_def)
  have pos: "1 \<le> bitlen ?m" using m bitlen_eq_zero_iff [of ?m] bitlen_nonneg [of ?m] by linarith
  then show "0 \<le> expo x" by (simp add: e)
  have lo: "2 ^ nat (bitlen ?m - 1) \<le> ?m" and hi: "?m < 2 ^ nat (bitlen ?m)"
    using bitlen_bounds [OF m] by simp_all
  have "2 powi (expo x) = (2::rat) ^ nat (bitlen ?m - 1)"
    using pos by (simp add: e power_int_def)
  also have "\<dots> = of_int (2 ^ nat (bitlen ?m - 1))" by simp
  also have "\<dots> \<le> of_int ?m" using lo by (simp only: of_int_le_iff)
  also have "\<dots> \<le> \<bar>x\<bar>" by simp
  finally show "2 powi (expo x) \<le> \<bar>x\<bar>" .
  have "?m + 1 \<le> 2 ^ nat (bitlen ?m)" using hi by simp
  then have "(of_int (?m + 1) :: rat) \<le> of_int (2 ^ nat (bitlen ?m))" by (simp only: of_int_le_iff)
  moreover have "\<bar>x\<bar> < of_int (?m + 1)" by linarith
  ultimately have "\<bar>x\<bar> < of_int (2 ^ nat (bitlen ?m))" by linarith
  also have "\<dots> = 2 powi (expo x + 1)" using pos by (simp add: e power_int_def)
  finally show "\<bar>x\<bar> < 2 powi (expo x + 1)" .
qed

lemma expo_bounds_small:
  assumes "x \<noteq> 0" and "\<bar>x\<bar> < 1"
  shows "2 powi (expo x) \<le> \<bar>x\<bar>" and "\<bar>x\<bar> < 2 powi (expo x + 1)"
proof -
  let ?y = "1 / \<bar>x\<bar>"
  let ?c = "\<lceil>?y\<rceil>"
  let ?n = "bitlen (?c - 1)"
  have x: "0 < \<bar>x\<bar>" using assms(1) by simp
  have y: "1 < ?y" using assms x by simp
  then have c: "0 < ?c - 1" by (simp add: less_ceiling_iff)
  have e: "expo x = - ?n" using assms(2) by (simp add: expo_def)
  have pos: "1 \<le> ?n" using c bitlen_eq_zero_iff [of "?c - 1"] bitlen_nonneg [of "?c - 1"] by linarith
  have lo: "2 ^ nat (?n - 1) \<le> ?c - 1" and hi: "?c - 1 < 2 ^ nat ?n"
    using bitlen_bounds [OF c] by simp_all
  have "?y \<le> of_int ?c" by simp
  also have "?c \<le> 2 ^ nat ?n" using hi by simp
  then have "(of_int ?c :: rat) \<le> of_int (2 ^ nat ?n)" by (simp only: of_int_le_iff)
  finally have "?y \<le> 2 ^ nat ?n" by simp
  then have "1 \<le> 2 ^ nat ?n * \<bar>x\<bar>" using x by (simp add: field_simps)
  then have "inverse (2 ^ nat ?n) \<le> \<bar>x\<bar>" by (simp add: field_simps)
  moreover have "2 powi (expo x) = inverse ((2::rat) ^ nat ?n)"
  proof -
    have "expo x = - int (nat ?n)" using pos by (simp add: e)
    then show ?thesis by (simp only: power_int_minus power_int_of_nat)
  qed
  ultimately show "2 powi (expo x) \<le> \<bar>x\<bar>" by simp
  have "(of_int (2 ^ nat (?n - 1)) :: rat) \<le> of_int (?c - 1)" using lo by (simp only: of_int_le_iff)
  moreover have "of_int (?c - 1) < ?y" using ceiling_correct [of ?y] by simp
  ultimately have "2 ^ nat (?n - 1) < ?y" by simp
  then have "2 ^ nat (?n - 1) * \<bar>x\<bar> < 1" using x by (simp add: field_simps)
  then have "\<bar>x\<bar> < inverse (2 ^ nat (?n - 1))" using x by (simp add: field_simps)
  moreover have "2 powi (expo x + 1) = inverse ((2::rat) ^ nat (?n - 1))"
  proof -
    have "expo x + 1 = - int (nat (?n - 1))" using pos by (simp add: e)
    then show ?thesis by (simp only: power_int_minus power_int_of_nat)
  qed
  ultimately show "\<bar>x\<bar> < 2 powi (expo x + 1)" by simp
qed

lemma expo_bounds:
  assumes "x \<noteq> 0"
  shows "2 powi (expo x) \<le> \<bar>x\<bar>" and "\<bar>x\<bar> < 2 powi (expo x + 1)"
  using assms expo_bounds_large [of x] expo_bounds_small [of x] by (cases "1 \<le> \<bar>x\<bar>"; simp)+

lemma round_half_even_error: "\<bar>of_int (round_half_even r) - r\<bar> \<le> 1 / 2"
proof -
  have "of_int \<lfloor>r\<rfloor> \<le> r" "r < of_int \<lfloor>r\<rfloor> + 1" by linarith+
  then show ?thesis by (auto simp: round_half_even_def Let_def)
qed

lemma round_half_even_of_int: "round_half_even (of_int z) = z"
  by (simp add: round_half_even_def)

lemma round64_error:
  assumes "x \<noteq> 0"
  shows "\<bar>round64 x - x\<bar> \<le> 2 powi (max (expo x) (- 1022) - 53)"
proof -
  let ?q = "max (expo x) (- 1022) - 52"
  let ?p = "(2::rat) powi ?q"
  have p: "0 < ?p" by simp
  have "round64 x - x = (of_int (round_half_even (x / ?p)) - x / ?p) * ?p"
    using assms p by (simp add: round64_def Let_def field_simps)
  then have "\<bar>round64 x - x\<bar> = \<bar>of_int (round_half_even (x / ?p)) - x / ?p\<bar> * ?p"
    using p by (simp add: abs_mult)
  also have "\<dots> \<le> 1 / 2 * ?p"
    using round_half_even_error [of "x / ?p"] p by (intro mult_right_mono) simp_all
  also have "\<dots> = 2 powi (?q - 1)"
    by (simp add: power_int_diff)
  finally show ?thesis by (simp add: algebra_simps)
qed

lemma two_powi_less: "(2::rat) powi m < 2 powi n \<Longrightarrow> m < n"
proof (rule ccontr)
  assume less: "(2::rat) powi m < 2 powi n" and "\<not> m < n"
  then have "n \<le> m" by simp
  then have "(2::rat) powi n \<le> 2 powi m" by (rule power_int_increasing) simp
  with less show False by simp
qed

lemma expo_ge:
  assumes "2 powi k \<le> \<bar>x\<bar>"
  shows "k \<le> expo x"
proof -
  have "0 < (2::rat) powi k" by simp
  with assms have "0 < \<bar>x\<bar>" by linarith
  then have "x \<noteq> 0" by simp
  then have "\<bar>x\<bar> < 2 powi (expo x + 1)" by (rule expo_bounds)
  with assms have "(2::rat) powi k < 2 powi (expo x + 1)" by simp
  then have "k < expo x + 1" by (rule two_powi_less)
  then show ?thesis by simp
qed

lemma expo_less:
  assumes "x \<noteq> 0" and "\<bar>x\<bar> < 2 powi k"
  shows "expo x < k"
proof -
  have "2 powi (expo x) \<le> \<bar>x\<bar>" using assms(1) by (rule expo_bounds)
  with assms(2) have "(2::rat) powi (expo x) < 2 powi k" by simp
  then show ?thesis by (rule two_powi_less)
qed

lemma round64_relative_error:
  assumes "2 powi (- 1022) \<le> \<bar>x\<bar>"
  shows "\<bar>round64 x - x\<bar> \<le> \<bar>x\<bar> / 2 ^ 53"
proof -
  have "0 < (2::rat) powi (- 1022)" by (rule zero_less_power_int) simp
  with assms have "0 < \<bar>x\<bar>" by linarith
  then have nz: "x \<noteq> 0" by simp
  have e: "- 1022 \<le> expo x" using assms by (rule expo_ge)
  have "\<bar>round64 x - x\<bar> \<le> 2 powi (max (expo x) (- 1022) - 53)"
    using nz by (rule round64_error)
  also have "\<dots> = 2 powi (expo x) / 2 ^ 53"
    using e by (simp add: max_def power_int_diff)
  also have "\<dots> \<le> \<bar>x\<bar> / 2 ^ 53"
    using expo_bounds(1) [OF nz] by (simp add: divide_right_mono)
  finally show ?thesis .
qed

lemma round64_Ints:
  assumes "x \<in> \<int>" and "\<bar>x\<bar> < 2 ^ 53"
  shows "round64 x = x"
proof (cases "x = 0")
  case True
  then show ?thesis by (simp add: round64_def)
next
  case False
  from assms(1) obtain n where n: "x = of_int n" by (auto elim: Ints_cases)
  with False have "1 \<le> \<bar>x\<bar>" by (simp add: n) 
  then have lo: "0 \<le> expo x" by (rule expo_bounds_large)
  have "\<bar>x\<bar> < 2 powi 53" using assms(2) by simp
  with False have hi: "expo x < 53" by (rule expo_less)
  define j where "j = nat (52 - expo x)"
  have q: "max (expo x) (- 1022) - 52 = - int j" using lo hi by (simp add: j_def)
  have p: "(2::rat) powi (- int j) = inverse (2 ^ j)"
    by (simp only: power_int_minus power_int_of_nat)
  have "x / inverse (2 ^ j) = of_int (n * 2 ^ j)"
    by (simp add: n divide_inverse)
  then have r: "round_half_even (x / inverse (2 ^ j)) = n * 2 ^ j"
    by (simp only: round_half_even_of_int)
  have "round64 x = of_int (round_half_even (x / 2 powi (- int j))) * 2 powi (- int j)"
    using False by (simp only: round64_def Let_def q if_False)
  also have "\<dots> = of_int (n * 2 ^ j) * inverse (2 ^ j)"
    by (simp only: p r)
  also have "\<dots> = x"
    by (simp add: n)
  finally show ?thesis .
qed

lemma fadd_Ints: "a \<in> \<int> \<Longrightarrow> b \<in> \<int> \<Longrightarrow> \<bar>a + b\<bar> < 2 ^ 53 \<Longrightarrow> fadd a b = a + b"
  by (simp add: fadd_def round64_Ints)

lemma fmul_Ints: "a \<in> \<int> \<Longrightarrow> b \<in> \<int> \<Longrightarrow> \<bar>a * b\<bar> < 2 ^ 53 \<Longrightarrow> fmul a b = a * b"
  by (simp add: fmul_def round64_Ints)

lemma fdiv_Ints: "a / b \<in> \<int> \<Longrightarrow> \<bar>a / b\<bar> < 2 ^ 53 \<Longrightarrow> fdiv a b = a / b"
  by (simp add: fdiv_def round64_Ints)

section \<open>Lemmas on the pandas operations\<close>

lemma set_keep_first: "set (keep_first seen xs) = set xs - set seen"
  by (induction xs arbitrary: seen) auto

lemma distinct_keep_first: "distinct (keep_first seen xs)"
  by (induction xs arbitrary: seen) (auto simp: set_keep_first)

lemma set_drop_duplicates: "set (drop_duplicates xs) = set xs"
  by (simp add: drop_duplicates_def set_keep_first)

lemma distinct_drop_duplicates: "distinct (drop_duplicates xs)"
  by (simp add: drop_duplicates_def distinct_keep_first)

lemma set_notna: "set (notna col) = {x. Some x \<in> set col}"
  by (induction col rule: notna.induct) auto

lemma nunique_card: "nunique col = card {x. Some x \<in> set col}"
  by (simp add: nunique_def distinct_card [OF distinct_drop_duplicates, symmetric]
      set_drop_duplicates set_notna)

lemma keep_first_cong: "set seen = set seen' \<Longrightarrow> keep_first seen xs = keep_first seen' xs"
proof (induction xs arbitrary: seen seen')
  case Nil
  show ?case by simp
next
  case (Cons x xs)
  have "set (x # seen) = set (x # seen')" using Cons.prems by simp
  then have "keep_first (x # seen) xs = keep_first (x # seen') xs" by (rule Cons.IH)
  moreover have "keep_first seen xs = keep_first seen' xs" using Cons.prems by (rule Cons.IH)
  moreover have "x \<in> set seen \<longleftrightarrow> x \<in> set seen'" using Cons.prems by simp
  ultimately show ?case by simp
qed

lemma keys_accumulate:
  "map fst (accumulate step z k c acc) =
     (if k \<in> fst ` set acc then map fst acc else map fst acc @ [k])"
proof (induction acc)
  case Nil
  then show ?case by simp
next
  case (Cons kw acc)
  obtain k' w where kw: "kw = (k', w)" by (cases kw)
  show ?case using Cons by (cases "k' = k") (simp_all add: kw)
qed

lemma keys_foldl_accumulate:
  "map fst (foldl (\<lambda>acc (k, c). accumulate step z k c acc) acc kcs) =
     map fst acc @ keep_first (map fst acc) (map fst kcs)"
proof (induction kcs arbitrary: acc)
  case Nil
  then show ?case by simp
next
  case (Cons kc kcs)
  obtain k c where kc: "kc = (k, c)" by (cases kc)
  let ?f = "\<lambda>acc (k, c). accumulate step z k c acc"
  have step: "map fst (foldl ?f acc (kc # kcs)) =
      map fst (accumulate step z k c acc) @
        keep_first (map fst (accumulate step z k c acc)) (map fst kcs)"
    unfolding kc foldl_Cons prod.case by (rule Cons)
  show ?case
  proof (cases "k \<in> set (map fst acc)")
    case True
    then have "map fst (accumulate step z k c acc) = map fst acc"
      by (simp add: keys_accumulate)
    then show ?thesis unfolding step using True by (simp add: kc)
  next
    case False
    then have acc: "map fst (accumulate step z k c acc) = map fst acc @ [k]"
      by (simp add: keys_accumulate)
    have "keep_first (map fst acc @ [k]) (map fst kcs) = keep_first (k # map fst acc) (map fst kcs)"
      by (rule keep_first_cong) auto
    then show ?thesis unfolding step acc using False by (simp add: kc)
  qed
qed

lemma keys_group_reduce: "map fst (group_reduce step z kcs) = drop_duplicates (map fst kcs)"
  by (simp add: group_reduce_def drop_duplicates_def keys_foldl_accumulate)

lemma distinct_keys_group_reduce: "distinct (map fst (group_reduce step z kcs))"
  by (simp add: keys_group_reduce distinct_drop_duplicates)

lemma map_of_accumulate:
  "map_of (accumulate step z k c acc) =
     (map_of acc)(k \<mapsto> (case map_of acc k of None \<Rightarrow> step z c | Some w \<Rightarrow> step w c))"
proof (induction acc)
  case Nil
  then show ?case by simp
next
  case (Cons kw acc)
  obtain k' w where kw: "kw = (k', w)" by (cases kw)
  show ?case using Cons by (cases "k' = k") (auto simp: kw fun_eq_iff)
qed

lemma map_of_foldl_accumulate:
  "map_of (foldl (\<lambda>acc (k, c). accumulate step z k c acc) acc kcs) k =
     (case map_of acc k of
        None \<Rightarrow>
          (if k \<in> fst ` set kcs
           then Some (foldl step z (map snd (filter (\<lambda>kc. fst kc = k) kcs))) else None)
      | Some w \<Rightarrow> Some (foldl step w (map snd (filter (\<lambda>kc. fst kc = k) kcs))))"
proof (induction kcs arbitrary: acc)
  case Nil
  then show ?case by (simp split: option.splits)
next
  case (Cons kc kcs)
  obtain k' c where kc: "kc = (k', c)" by (cases kc)
  have step: "foldl (\<lambda>acc (k, c). accumulate step z k c acc) acc (kc # kcs) =
      foldl (\<lambda>acc (k, c). accumulate step z k c acc) (accumulate step z k' c acc) kcs"
    by (simp add: kc)
  show ?case
    unfolding step Cons map_of_accumulate
    by (cases "k' = k"; cases "map_of acc k") (simp_all add: kc image_iff)
qed

lemma group_reduce_entry:
  "(k, w) \<in> set (group_reduce step z kcs) \<longleftrightarrow>
     k \<in> fst ` set kcs \<and> w = foldl step z (map snd (filter (\<lambda>kc. fst kc = k) kcs))"
proof -
  have "(k, w) \<in> set (group_reduce step z kcs) \<longleftrightarrow> map_of (group_reduce step z kcs) k = Some w"
    using distinct_keys_group_reduce [of step z kcs] by simp
  then show ?thesis by (auto simp: group_reduce_def map_of_foldl_accumulate)
qed

lemma zip_columns: "zip (map f df) (map g df) = map (\<lambda>r. (f r, g r)) df"
  by (induction df) auto

lemma distinct_keys_sort_key:
  "distinct (map fst xs) \<Longrightarrow> distinct (map fst (sort_key f xs))"
  by (simp add: distinct_map)

lemma filter_columns:
  "map snd (filter (\<lambda>kv. fst kv = k) (map (\<lambda>r. (f r, g r)) df)) = map g (filter (\<lambda>r. f r = k) df)"
  by (induction df) auto






lemma groupby_sum_rows:
  "groupby_sum (map f rows) (map g rows) =
     sort_key fst (group_reduce add_cell 0 (map (\<lambda>r. (f r, g r)) rows))"
  by (simp only: groupby_sum_def zip_columns)

lemma groupby_sum_sorted: "sorted_wrt (<) (map fst (groupby_sum (map f rows) (map g rows)))"
proof -
  have "sorted (map fst (groupby_sum (map f rows) (map g rows)))"
    unfolding groupby_sum_rows by (rule sorted_sort_key)
  moreover have "distinct (map fst (groupby_sum (map f rows) (map g rows)))"
    unfolding groupby_sum_rows by (rule distinct_keys_sort_key) (rule distinct_keys_group_reduce)
  ultimately show ?thesis by (simp add: strict_sorted_iff)
qed

lemma groupby_sum_keys: "set (map fst (groupby_sum (map f rows) (map g rows))) = f ` set rows"
proof -
  let ?kvs = "map (\<lambda>r. (f r, g r)) rows"
  have "set (map fst (groupby_sum (map f rows) (map g rows))) = set (map fst (group_reduce add_cell 0 ?kvs))"
    unfolding groupby_sum_rows by simp
  also have "\<dots> = set (map fst ?kvs)"
    by (simp only: keys_group_reduce set_drop_duplicates)
  also have "\<dots> = f ` set rows"
    by (simp add: image_image)
  finally show ?thesis .
qed

lemma groupby_sum_entry:
  assumes "(k, amount) \<in> set (groupby_sum (map f rows) (map g rows))"
  shows "amount = series_sum (map g (filter (\<lambda>r. f r = k) rows))"
proof -
  let ?kvs = "map (\<lambda>r. (f r, g r)) rows"
  from assms have "(k, amount) \<in> set (group_reduce add_cell 0 ?kvs)"
    unfolding groupby_sum_rows by simp
  then have "amount = foldl add_cell 0 (map snd (filter (\<lambda>kv. fst kv = k) ?kvs))"
    by (simp add: group_reduce_entry)
  also have "\<dots> = foldl add_cell 0 (map g (filter (\<lambda>r. f r = k) rows))"
    by (simp only: filter_columns)
  finally show ?thesis by (simp only: series_sum_def)
qed

lemma monthly_sales_entry:
  assumes "(m, amount) \<in> set (monthly_sales df)"
  shows "amount = series_sum (map TotalPrice (filter (\<lambda>r. Month r = m) df))"
  using assms unfolding monthly_sales_def by (rule groupby_sum_entry)

lemma monthly_sales_table:
  "sorted_wrt (<) (map fst (monthly_sales df)) \<and>
   set (map fst (monthly_sales df)) = Month ` set df \<and>
   (\<forall>(m, total) \<in> set (monthly_sales df).
      total = series_sum (map TotalPrice (filter (\<lambda>r. Month r = m) df)))"
  unfolding monthly_sales_def
  by (intro conjI groupby_sum_sorted groupby_sum_keys) (auto dest: groupby_sum_entry)


section \<open>Lemmas on the period strings\<close>




lemma digits_small: "n < 10 \<Longrightarrow> digits n = [digit n]"
  by (subst digits.simps) simp

lemma digits_large: "\<not> n < 10 \<Longrightarrow> digits n = digits (n div 10) @ [digit n]"
  by (subst digits.simps) simp

lemma length_digits_pos: "0 < length (digits n)"
  by (cases "n < 10") (simp_all add: digits_small digits_large)


lemma of_char_digit: "of_char (digit d) = (48 + d mod 10 :: nat)"
proof -
  have "d mod 10 < 10" by simp
  then have "d mod 10 \<in> {0, 1, 2, 3, 4, 5, 6, 7, 8, 9}" by (simp only: insert_iff empty_iff) arith
  then show ?thesis unfolding digit_def by (elim insertE emptyE) simp_all
qed


lemma digit_eq: "digit a = digit b \<longleftrightarrow> a mod 10 = b mod 10"
proof
  assume "digit a = digit b"
  then have "(of_char (digit a) :: nat) = of_char (digit b)" by simp
  then show "a mod 10 = b mod 10" by (simp add: of_char_digit)
next
  assume "a mod 10 = b mod 10"
  then show "digit a = digit b" by (simp add: digit_def)
qed








section \<open>Lemmas on the deriver\<close>

lemma to_datetime_Inl:
  "to_datetime parse cs = Inl e \<longleftrightarrow>
     e = InvalidTimestamp \<and> (\<exists>text. Some text \<in> set cs \<and> parse text = None)"
  by (induction parse cs rule: to_datetime.induct) (auto split: sum.splits option.splits)

lemma unparseable_iff:
  "unparseable parse r \<longleftrightarrow> (\<exists>text. InvoiceDate r = Some text \<and> parse text = None)"
  by (cases "InvoiceDate r") (simp_all add: unparseable_def)

lemma to_datetime_Inr:
  "to_datetime parse cs = Inr ts \<Longrightarrow> ts = map (\<lambda>c. Option.bind c parse) cs"
  by (induction parse cs arbitrary: ts rule: to_datetime.induct) (auto split: sum.splits option.splits)

lemma map2_columns: "map2 g df (map h (map f df)) = map (\<lambda>r. g r (h (f r))) df"
  by (induction df) auto

lemma derive_Inl:
  "derive parse as_month df = Inl e \<longleftrightarrow>
     e = InvalidTimestamp \<and> (\<exists>r \<in> set df. unparseable parse r)"
proof -
  have "derive parse as_month df = Inl e \<longleftrightarrow> to_datetime parse (map InvoiceDate df) = Inl e"
    by (simp add: derive_def split: sum.splits)
  also have "\<dots> \<longleftrightarrow>
      e = InvalidTimestamp \<and> (\<exists>text. Some text \<in> set (map InvoiceDate df) \<and> parse text = None)"
    by (rule to_datetime_Inl)
  also have "(\<exists>text. Some text \<in> set (map InvoiceDate df) \<and> parse text = None) \<longleftrightarrow>
      (\<exists>r \<in> set df. unparseable parse r)"
    by (simp add: unparseable_iff image_iff) metis
  finally show ?thesis .
qed

lemma derive_Inr:
  assumes "derive parse as_month df = Inr df'"
  shows "df' = map (\<lambda>r. assign_columns as_month r (Option.bind (InvoiceDate r) parse)) df"
proof -
  from assms obtain ts where ts: "to_datetime parse (map InvoiceDate df) = Inr ts"
    and df': "df' = map2 (assign_columns as_month) df ts"
    by (auto simp: derive_def split: sum.splits)
  from ts have "ts = map (\<lambda>c. Option.bind c parse) (map InvoiceDate df)"
    by (rule to_datetime_Inr)
  then show ?thesis unfolding df' by (simp only: map2_columns)
qed

lemma derive_total:
  "\<not> (\<exists>r \<in> set df. unparseable parse r) \<Longrightarrow>
   derive parse as_month df =
     Inr (map (\<lambda>r. assign_columns as_month r (Option.bind (InvoiceDate r) parse)) df)"
proof -
  assume ok: "\<not> (\<exists>r \<in> set df. unparseable parse r)"
  obtain df' where "derive parse as_month df = Inr df'"
  proof (cases "derive parse as_month df")
    case (Inl e)
    then show ?thesis using ok by (simp add: derive_Inl)
  next
    case (Inr df')
    then show ?thesis by (rule that)
  qed
  then show ?thesis using derive_Inr by metis
qed

lemma prepare_features_Loaded:
  "s df = Loaded rows \<Longrightarrow>
   prepare_features parse df s =
     (case derive parse (\<lambda>p. p) rows of
        Inl e \<Rightarrow> Inl e
      | Inr rows' \<Rightarrow> Inr (df, s(df := Prepared rows')))"
  by (simp add: prepare_features_def)

lemma derive_rows:
  assumes "derive parse as_month cleaned = Inr df" and "r \<in> set df"
    and "\<forall>r \<in> set cleaned. \<not> has_na r"
  shows "\<exists>q p. Quantity r = Some q \<and> UnitPrice r = Some p \<and>
    TotalPrice r = Some (fmul (round64 (of_int q)) p)"
proof -
  from assms(1) have "df = map (\<lambda>r. assign_columns as_month r (Option.bind (InvoiceDate r) parse)) cleaned"
    by (rule derive_Inr)
  with assms(2) obtain r0 where r0: "r0 \<in> set cleaned"
    and r: "r = assign_columns as_month r0 (Option.bind (InvoiceDate r0) parse)"
    by auto
  from r0 assms(3) have "\<not> has_na r0" by simp
  then obtain q p where "Quantity r0 = Some q" "UnitPrice r0 = Some p"
    by (auto simp: has_na_def)
  then show ?thesis by (simp add: r assign_columns_def)
qed

lemma load_and_prepare_data_rows:
  assumes "load_and_prepare_data parse raw = Inr df" and "r \<in> set df"
  shows "\<exists>q p. Quantity r = Some q \<and> UnitPrice r = Some p \<and>
    TotalPrice r = Some (fmul (round64 (of_int q)) p)"
  using assms unfolding load_and_prepare_data_def
  by (rule derive_rows) (simp add: dropna_def)


section \<open>Lemmas on sums that do not round\<close>

lemma foldl_add_cell_exact:
  assumes "a \<in> \<int>" and "list_all (\<lambda>x. x \<in> \<int>) (notna col)"
    and "\<bar>a\<bar> + (\<Sum>x\<leftarrow>notna col. \<bar>x\<bar>) < 2 ^ 53"
  shows "foldl add_cell a col = a + sum_list (notna col)"
  using assms
proof (induction col arbitrary: a)
  case Nil
  then show ?case by simp
next
  case (Cons c col)
  show ?case
  proof (cases c)
    case None
    then show ?thesis using Cons by simp
  next
    case (Some x)
    from Cons.prems Some have x: "x \<in> \<int>" and rest: "list_all (\<lambda>x. x \<in> \<int>) (notna col)"
      and bound: "\<bar>a\<bar> + \<bar>x\<bar> + (\<Sum>x\<leftarrow>notna col. \<bar>x\<bar>) < 2 ^ 53"
      by simp_all
    have nonneg: "0 \<le> (\<Sum>x\<leftarrow>notna col. \<bar>x\<bar>)" by (rule sum_list_nonneg) auto
    have "\<bar>a + x\<bar> < 2 ^ 53" using bound nonneg by linarith
    with Cons.prems(1) x have step: "fadd a x = a + x" by (intro fadd_Ints)
    have "\<bar>a + x\<bar> + (\<Sum>x\<leftarrow>notna col. \<bar>x\<bar>) < 2 ^ 53" using bound by linarith
    moreover have "a + x \<in> \<int>" using Cons.prems(1) x by simp
    ultimately have "foldl add_cell (a + x) col = a + x + sum_list (notna col)"
      using rest by (intro Cons.IH)
    then show ?thesis by (simp add: Some step)
  qed
qed

lemma series_sum_exact: "whole_amounts col \<Longrightarrow> series_sum col = sum_list (notna col)"
  using foldl_add_cell_exact [of 0 col] by (simp add: whole_amounts_def series_sum_def)

lemma sum_abs_filter:
  "(\<Sum>x\<leftarrow>notna (map g (filter P rows)). \<bar>x :: rat\<bar>) \<le> (\<Sum>x\<leftarrow>notna (map g rows). \<bar>x\<bar>)"
proof (induction rows)
  case Nil
  then show ?case by simp
next
  case (Cons r rows)
  then show ?case by (cases "g r") auto
qed

lemma list_all_filter_notna:
  "list_all Q (notna (map g rows)) \<Longrightarrow> list_all Q (notna (map g (filter P rows)))"
proof (induction rows)
  case Nil
  then show ?case by simp
next
  case (Cons r rows)
  then show ?case by (cases "g r") auto
qed

lemma whole_amounts_filter:
  "whole_amounts (map g rows) \<Longrightarrow> whole_amounts (map g (filter P rows))"
  using sum_abs_filter [of g P rows]
  by (auto simp: whole_amounts_def intro: list_all_filter_notna)

lemma sum_list_delta:
  fixes v :: rat
  shows "distinct ks \<Longrightarrow> k0 \<in> set ks \<Longrightarrow> (\<Sum>k\<leftarrow>ks. if k0 = k then v else 0) = v"
proof (induction ks)
  case Nil
  then show ?case by simp
next
  case (Cons k ks)
  show ?case
  proof (cases "k0 = k")
    case True
    then have "k0 \<notin> set ks" using Cons.prems(1) by simp
    then have "(\<Sum>k\<leftarrow>ks. if k0 = k then v else 0) = 0"
      by (induction ks) auto
    then show ?thesis using True by simp
  next
    case False
    then show ?thesis using Cons by simp
  qed
qed

text \<open>The groups of a column partition it.\<close>

lemma sum_groups:
  fixes h :: "'r \<Rightarrow> rat"
  assumes "distinct ks" and "f ` set rows \<subseteq> set ks"
  shows "(\<Sum>k\<leftarrow>ks. \<Sum>r\<leftarrow>filter (\<lambda>r. f r = k) rows. h r) = (\<Sum>r\<leftarrow>rows. h r)"
  using assms(2)
proof (induction rows)
  case Nil
  then show ?case by simp
next
  case (Cons r rows)
  have "(\<Sum>k\<leftarrow>ks. \<Sum>r\<leftarrow>filter (\<lambda>r. f r = k) (r # rows). h r) =
      (\<Sum>k\<leftarrow>ks. (if f r = k then h r else 0) + (\<Sum>r\<leftarrow>filter (\<lambda>r. f r = k) rows. h r))"
    by (intro arg_cong [of _ _ sum_list] map_cong) auto
  also have "\<dots> = (\<Sum>k\<leftarrow>ks. if f r = k then h r else 0) +
      (\<Sum>k\<leftarrow>ks. \<Sum>r\<leftarrow>filter (\<lambda>r. f r = k) rows. h r)"
    by (simp add: sum_list_addf)
  also have "(\<Sum>k\<leftarrow>ks. if f r = k then h r else 0) = h r"
    using assms(1) Cons.prems by (intro sum_list_delta) auto
  also have "(\<Sum>k\<leftarrow>ks. \<Sum>r\<leftarrow>filter (\<lambda>r. f r = k) rows. h r) = (\<Sum>r\<leftarrow>rows. h r)"
    using Cons.prems by (intro Cons.IH) auto
  finally show ?case by simp
qed

section \<open>Lemmas on the rows of a derived frame\<close>











section \<open>Lemmas on the objects of the store\<close>

lemma update_dashboard_in_frame:
  assumes "t served = Dashboard sales" and "t filtered_at = Free" and "t top_at = Free"
    and "t monthly_at = Free" and "top_at \<noteq> monthly_at"
  shows "\<exists>t'. update_dashboard_in tie served months filtered_at top_at monthly_at t =
      Inr ((calculate_kpis (isin months sales),
            Counts (''Product'', ''Orders'') (top_products tie (isin months sales)),
            Sums (monthly_sales (isin months sales))), t') \<and>
    (\<forall>r. t r \<noteq> Free \<longrightarrow> t' r = t r)"
  using assms by (auto simp: update_dashboard_in_def Let_def)

lemma create_line_chart_in_frame:
  assumes "s df = Prepared rows" and "s monthly_at = Free"
  shows "\<exists>s'. create_line_chart_in df monthly_at s = Inr (Sums (create_line_chart rows), s') \<and>
    (\<forall>r. s r \<noteq> Free \<longrightarrow> s' r = s r)"
  using assms by (auto simp: create_line_chart_in_def Let_def)

section \<open>Lemmas on the rounding of a product\<close>

lemma mul_cells_rounded:
  assumes "\<bar>q\<bar> < 2 ^ 53"
  shows "mul_cells (Some q) (Some p) = Some (round64 (of_int q * p))"
proof -
  have "\<bar>of_int q :: rat\<bar> < 2 ^ 53"
  proof -
    have "\<bar>of_int q :: rat\<bar> = of_int \<bar>q\<bar>" by simp
    also have "\<dots> < of_int (2 ^ 53)" using assms by (simp only: of_int_less_iff)
    finally show ?thesis by simp
  qed
  then have "round64 (of_int q) = (of_int q :: rat)" by (intro round64_Ints) simp
  then show ?thesis by (simp add: fmul_def)
qed

section \<open>The worked example, evaluated\<close>

lemma round64_tenths:
  "round64 tenth = tenth" "round64 two_tenths = two_tenths" "round64 three_tenths = three_tenths"
  by code_simp+

lemma fmul_three_tenth: "fmul 3 tenth = three_tenths_up" "fmul 1 tenth = tenth"
  "fmul 1 two_tenths = two_tenths" "fmul 1 three_tenths = three_tenths"
  by code_simp+

lemma fadd_tenths:
  "fadd 0 tenth = tenth"
  "fadd tenth two_tenths = three_tenths_up"
  "fadd three_tenths_up three_tenths = six_tenths_up"
  "fadd 0 two_tenths = two_tenths"
  "fadd two_tenths three_tenths = 1 / 2"
  "fadd tenth (1 / 2) = six_tenths"
  by code_simp+

lemma example_kpis:
  "calculate_kpis [sale_b, sale_return] = (12, Some 6, 2)"
  by (simp add: calculate_kpis_def series_sum_def series_mean_def nunique_def drop_duplicates_def
      sale_b_def sale_return_def fadd_Ints fdiv_Ints)


lemma example_monthly:
  "monthly_sales [sale_a1, sale_a2, sale_b, sale_return] = [(''2010-12'', 11), (''2011-01'', 12)]"
  by (simp add: monthly_sales_def groupby_sum_def group_reduce_def fadd_Ints
      sale_a1_def sale_a2_def sale_b_def sale_return_def)


lemma pennies_kpis: "fst (calculate_kpis [sale_pin, sale_nut, sale_bolt]) = six_tenths_up"
  by (simp add: calculate_kpis_def series_sum_def sale_pin_def sale_nut_def sale_bolt_def fadd_tenths)

lemma pennies_monthly:
  "monthly_sales [sale_pin, sale_nut, sale_bolt] = [(''2010-12'', tenth), (''2011-01'', 1 / 2)]"
  by (simp add: monthly_sales_def groupby_sum_def group_reduce_def sale_pin_def sale_nut_def
      sale_bolt_def fadd_tenths)

lemma pennies_load:
  "load_and_prepare_data example_parse [line_pin, line_nut, line_bolt] = Inr [sale_pin, sale_nut, sale_bolt]"
  by (simp add: load_and_prepare_data_def derive_def dropna_def drop_duplicates_def has_na_def
      assign_columns_def example_parse_def zfill_def digits.simps digit_def
      round64_Ints fmul_three_tenth
      line_pin_def line_nut_def line_bolt_def sale_pin_def sale_nut_def sale_bolt_def)

lemma three_load:
  "load_and_prepare_data example_parse [line_three] = Inr [sale_three]"
  by (simp add: load_and_prepare_data_def derive_def dropna_def drop_duplicates_def has_na_def
      assign_columns_def example_parse_def zfill_def digits.simps digit_def
      round64_Ints fmul_three_tenth line_three_def sale_three_def)

lemma tenths_differ:
  "six_tenths \<noteq> six_tenths_up" "tenth + 1 / 2 \<noteq> six_tenths_up" "three_tenths_up \<noteq> 3 * tenth"
  "three_tenths_up \<noteq> 3 / 10"
  by (simp_all add: six_tenths_def six_tenths_up_def tenth_def three_tenths_up_def)

lemma period_str_examples:
  "period_str (Some (2010, 12)) = ''2010-12''" "period_str (Some (2011, 1)) = ''2011-01''"
  by (simp_all add: zfill_def digits.simps digit_def)


lemma example_prepare:
  "prepare_features example_parse 0 example_store =
     Inr (0, example_store(0 := Prepared [report_a1, report_return]))"
  by (simp add: prepare_features_def example_store_def derive_def assign_columns_def
      example_parse_def round64_Ints fmul_Ints
      line_a1_def line_return_def report_a1_def report_return_def)

lemma example_prepare_fails:
  "prepare_features example_parse 1 example_store = Inl InvalidTimestamp"
  by (simp add: prepare_features_def example_store_def derive_def
      example_parse_def line_a1_def line_bad_date_def)




lemma example_line_chart:
  "create_line_chart [report_return, report_a1] = [(''2010-12'', 6), (''2011-01'', - 8)]"
  by (simp add: create_line_chart_def groupby_sum_def group_reduce_def fadd_Ints
      zfill_def digits.simps digit_def report_a1_def report_return_def)

lemma example_line_chart_prepared:
  "create_line_chart [report_a1, report_return] = [(''2010-12'', 6), (''2011-01'', - 8)]"
  by (simp add: create_line_chart_def groupby_sum_def group_reduce_def fadd_Ints
      zfill_def digits.simps digit_def report_a1_def report_return_def)


lemma example_selected:
  "isin [''2011-01''] [sale_a1, sale_a2, sale_b, sale_return] = [sale_b, sale_return]"
  by (simp add: isin_def sale_a1_def sale_a2_def sale_b_def sale_return_def)

lemma example_selected_top:
  "top_products by_first_seen [sale_b, sale_return] = [(''CUP'', 1), (''MUG'', 1)]"
  by (simp add: top_products_def head_def value_counts_def group_reduce_def by_first_seen_def
      sale_b_def sale_return_def)

lemma example_selected_monthly: "monthly_sales [sale_b, sale_return] = [(''2011-01'', 12)]"
  by (simp add: monthly_sales_def groupby_sum_def group_reduce_def fadd_Ints
      sale_b_def sale_return_def)


lemma example_dashboard:
  "update_dashboard_in by_first_seen 0 [''2011-01''] 2 3 4 served_store =
     Inr ((( 12, Some 6, 2), Counts (''Product'', ''Orders'') [(''CUP'', 1), (''MUG'', 1)],
           Sums [(''2011-01'', 12)]),
          served_store(2 := Dashboard [sale_b, sale_return],
            3 := Counts (''Product'', ''Orders'') [(''CUP'', 1), (''MUG'', 1)],
            4 := Sums [(''2011-01'', 12)]))"
  by (simp add: update_dashboard_in_def Let_def served_store_def example_selected example_selected_top
      example_selected_monthly example_kpis)

lemma example_report_chart:
  "create_line_chart_in 1 2 served_store =
     Inr (Sums [(''2010-12'', 6), (''2011-01'', - 8)],
          served_store(2 := Sums [(''2010-12'', 6), (''2011-01'', - 8)]))"
  by (simp add: create_line_chart_in_def Let_def served_store_def example_line_chart)

lemma three_prepare:
  "prepare_features example_parse 0 ((\<lambda>_. Free)(0 := Loaded [line_three])) =
     Inr (0, (\<lambda>_. Free)(0 := Prepared [report_three]))"
  by (simp add: prepare_features_def derive_def assign_columns_def
      example_parse_def round64_Ints fmul_three_tenth line_three_def report_three_def)

lemma example_whole:
  "whole_amounts (map TotalPrice [sale_a1, sale_a2, sale_b, sale_return])"
  by (simp add: whole_amounts_def sale_a1_def sale_a2_def sale_b_def sale_return_def)

lemma example_all_kpis:
  "calculate_kpis [sale_a1, sale_a2, sale_b, sale_return] = (23, Some (23 / 4), 3)"
  by (simp add: calculate_kpis_def series_sum_def series_mean_def nunique_def drop_duplicates_def
      fadd_Ints sale_a1_def sale_a2_def sale_b_def sale_return_def)
    code_simp

lemma example_prepared_chart:
  "create_line_chart_in 0 2 (example_store(0 := Prepared [report_a1, report_return])) =
     Inr (Sums [(''2010-12'', 6), (''2011-01'', - 8)],
          example_store(0 := Prepared [report_a1, report_return],
            2 := Sums [(''2010-12'', 6), (''2011-01'', - 8)]))"
  by (simp add: create_line_chart_in_def Let_def example_store_def example_line_chart_prepared)

lemma tenth_nearest: "round64 (1 / 10) = tenth" "round64 (3 / 10) = three_tenths"
  by code_simp+

section \<open>Record Loader\<close>

text \<open>
  C8. After the loader (\<^verbatim>\<open>drop_duplicates\<close>, then \<^verbatim>\<open>dropna\<close>) no two rows of the table
  are equal in all columns, and every row is a row of the input in which no column is
  missing: incomplete rows are dropped, nothing is filled in. Every complete row of the
  input is still there.
\<close>

theorem clean_data_postcondition:
  "distinct (clean_data df) \<and>
   (\<forall>r \<in> set (clean_data df).
      r \<in> set df \<and> InvoiceNo r \<noteq> None \<and> Description r \<noteq> None \<and> Quantity r \<noteq> None \<and>
      InvoiceDate r \<noteq> None \<and> UnitPrice r \<noteq> None \<and> None \<notin> set (Other r)) \<and>
   (\<forall>r \<in> set df. \<not> has_na r \<longrightarrow> r \<in> set (clean_data df))"
  by (auto simp: clean_data_def dropna_def distinct_drop_duplicates set_drop_duplicates has_na_def)

theorem clean_data_postcondition_witness:
  "clean_data [line_a1, line_a1, line_nan, line_b] = [line_a1, line_b] \<and>
   distinct (clean_data [line_a1, line_a1, line_nan, line_b]) \<and>
   line_b \<in> set (clean_data [line_a1, line_a1, line_nan, line_b]) \<and>
   UnitPrice line_b \<noteq> None \<and> \<not> has_na line_a1"
  using clean_data_postcondition [of "[line_a1, line_a1, line_nan, line_b]"]
  by (simp add: clean_data_def dropna_def drop_duplicates_def has_na_def
      line_a1_def line_nan_def line_b_def)

section \<open>Metric Engine\<close>

text \<open>
  C1, as the code has it. For the empty subset \<^verbatim>\<open>calculate_kpis\<close> returns total
  revenue 0 and order count 0, and both chart tables are empty; nothing raises. The
  average is the mean of an empty column, which pandas returns as NaN, not 0. The same
  holds for \<^verbatim>\<open>update_dashboard\<close> when no month is selected.
\<close>

theorem empty_subset:
  "calculate_kpis ([] :: ('d, 'm) prepared list) = (0, None, 0) \<and>
   top_products tie ([] :: ('d, 'm) prepared list) = [] \<and>
   monthly_sales ([] :: ('d, string) prepared list) = [] \<and>
   update_dashboard tie df [] = ((0, None, 0), [], [])"
  by (simp add: calculate_kpis_def top_products_def monthly_sales_def update_dashboard_def
      isin_def series_sum_def series_mean_def nunique_def drop_duplicates_def head_def
      value_counts_def groupby_sum_def group_reduce_def)

text \<open>C1 as stated (an average of 0 for the empty subset) fails.\<close>

theorem empty_average_counterexample:
  "fst (snd (calculate_kpis ([] :: (timestamp, string) prepared list))) = None \<and>
   calculate_kpis ([] :: (timestamp, string) prepared list) \<noteq> (0, Some 0, 0)"
  by (simp add: calculate_kpis_def series_sum_def series_mean_def)

text \<open>
  C2. The order count of \<^verbatim>\<open>calculate_kpis\<close> is the number of distinct invoice numbers
  that occur in the subset, whatever the number of rows per invoice.
\<close>

theorem total_orders_distinct:
  "snd (snd (calculate_kpis df)) = card {i. Some i \<in> InvoiceNo ` set df}"
  by (simp add: calculate_kpis_def nunique_card)

section \<open>Aggregation Engine\<close>






text \<open>
  C5, as the code has it. When the line totals of the frame are whole numbers whose
  absolute values add up to less than \<open>2 ^ 53\<close>, no addition rounds, and the amounts of
  the period-totals table add up to the total revenue of \<^verbatim>\<open>calculate_kpis\<close> on the same
  frame, whether they are added exactly or in float64.
\<close>

theorem period_totals_sum_whole:
  assumes "whole_amounts (map TotalPrice df)"
  shows "series_sum (map (\<lambda>(m, amount). Some amount) (monthly_sales df)) = fst (calculate_kpis df) \<and>
    sum_list (map snd (monthly_sales df)) = fst (calculate_kpis df)"
proof -
  let ?h = "\<lambda>r :: ('a, string) prepared. case TotalPrice r of None \<Rightarrow> 0 | Some x \<Rightarrow> x"
  let ?ms = "monthly_sales df"
  let ?ks = "map fst ?ms"
  let ?group = "\<lambda>m. filter (\<lambda>r. Month r = m) df"
  have cells: "sum_list (notna (map TotalPrice rows)) = (\<Sum>r\<leftarrow>rows. ?h r)"
    for rows :: "('a, string) prepared list"
  proof (induction rows)
    case Nil
    then show ?case by simp
  next
    case (Cons r rows)
    then show ?case by (cases "TotalPrice r") auto
  qed
  have abs_cells: "(\<Sum>x\<leftarrow>notna (map TotalPrice rows). \<bar>x\<bar>) = (\<Sum>r\<leftarrow>rows. \<bar>?h r\<bar>)"
    for rows :: "('a, string) prepared list"
  proof (induction rows)
    case Nil
    then show ?case by simp
  next
    case (Cons r rows)
    then show ?case by (cases "TotalPrice r") auto
  qed
  have whole: "?h r \<in> \<int>" if "r \<in> set df" for r
  proof (cases "TotalPrice r")
    case None
    then show ?thesis by simp
  next
    case (Some x)
    with that have "x \<in> set (notna (map TotalPrice df))" by (force simp: set_notna)
    with assms have "x \<in> \<int>" by (simp add: whole_amounts_def list_all_iff)
    with Some show ?thesis by simp
  qed
  have group_whole: "(\<Sum>r\<leftarrow>?group m. ?h r) \<in> \<int>" for m
  proof -
    have "\<forall>r \<in> set rows. ?h r \<in> \<int> \<Longrightarrow> (\<Sum>r\<leftarrow>rows. ?h r) \<in> \<int>"
      for rows :: "('a, string) prepared list"
      by (induction rows) auto
    then show ?thesis using whole by simp
  qed
  have sorted: "sorted_wrt (<) ?ks" and keys: "set ?ks = Month ` set df"
    using monthly_sales_table [of df] by simp_all
  from sorted have distinct: "distinct ?ks" by (simp add: strict_sorted_iff)
  have amount: "snd e = (\<Sum>r\<leftarrow>?group (fst e). ?h r)" if "e \<in> set ?ms" for e
  proof -
    from that have "(fst e, snd e) \<in> set ?ms" by simp
    then have "snd e = series_sum (map TotalPrice (?group (fst e)))" by (rule monthly_sales_entry)
    also have "\<dots> = sum_list (notna (map TotalPrice (?group (fst e))))"
      using assms by (intro series_sum_exact whole_amounts_filter)
    also have "\<dots> = (\<Sum>r\<leftarrow>?group (fst e). ?h r)" by (rule cells)
    finally show ?thesis .
  qed
  then have amounts: "map snd ?ms = map (\<lambda>m. \<Sum>r\<leftarrow>?group m. ?h r) ?ks"
    by (simp add: comp_def)
  have revenue: "fst (calculate_kpis df) = (\<Sum>r\<leftarrow>df. ?h r)"
    using assms by (simp add: calculate_kpis_def series_sum_exact cells)
  have "sum_list (map snd ?ms) = (\<Sum>m\<leftarrow>?ks. \<Sum>r\<leftarrow>?group m. ?h r)"
    by (simp only: amounts)
  also have "\<dots> = (\<Sum>r\<leftarrow>df. ?h r)"
    using distinct by (rule sum_groups) (use keys in simp)
  finally have exact: "sum_list (map snd ?ms) = fst (calculate_kpis df)"
    by (simp only: revenue)
  have "notna (map (\<lambda>(m, amount). Some amount) ms) = map snd ms" for ms :: "(string \<times> rat) list"
    by (induction ms) auto
  then have col: "notna (map (\<lambda>(m, amount). Some amount) ?ms) = map snd ?ms" .
  have "(\<Sum>x\<leftarrow>map snd ?ms. \<bar>x\<bar>) = (\<Sum>m\<leftarrow>?ks. \<bar>\<Sum>r\<leftarrow>?group m. ?h r\<bar>)"
    by (simp only: amounts) (simp add: comp_def)
  also have "\<dots> \<le> (\<Sum>m\<leftarrow>?ks. \<Sum>r\<leftarrow>?group m. \<bar>?h r\<bar>)"
    by (intro sum_list_mono sum_list_abs [THEN order_trans]) (simp add: comp_def)
  also have "\<dots> = (\<Sum>r\<leftarrow>df. \<bar>?h r\<bar>)"
    using distinct by (rule sum_groups) (use keys in simp)
  also have "\<dots> < 2 ^ 53"
    using assms by (simp add: whole_amounts_def abs_cells)
  finally have bound: "(\<Sum>x\<leftarrow>map snd ?ms. \<bar>x\<bar>) < 2 ^ 53" .
  have "list_all (\<lambda>x. x \<in> \<int>) (map snd ?ms)"
    by (simp only: amounts) (simp add: list_all_iff group_whole)
  with bound have "whole_amounts (map (\<lambda>(m, amount). Some amount) ?ms)"
    by (simp add: whole_amounts_def col)
  then have "series_sum (map (\<lambda>(m, amount). Some amount) ?ms) = sum_list (map snd ?ms)"
    by (simp add: series_sum_exact col)
  with exact show ?thesis by simp
qed

theorem period_totals_sum_whole_witness:
  "whole_amounts (map TotalPrice [sale_a1, sale_a2, sale_b, sale_return]) \<and>
   monthly_sales [sale_a1, sale_a2, sale_b, sale_return] = [(''2010-12'', 11), (''2011-01'', 12)] \<and>
   fst (calculate_kpis [sale_a1, sale_a2, sale_b, sale_return]) = 23 \<and>
   series_sum [Some 11, Some 12] = 23"
  using period_totals_sum_whole [of "[sale_a1, sale_a2, sale_b, sale_return]"] example_whole
  by (simp add: example_monthly example_all_kpis)

text \<open>
  C5 as stated fails. One piece at 0.1 in December 2010 and one piece each at 0.2 and at
  0.3 in January 2011: the total revenue is (0.1 + 0.2) + 0.3 = 0.6000000000000001, the
  period totals are 0.1 and 0.2 + 0.3 = 0.5, and 0.1 + 0.5 is 0.6 in float64 and not
  0.6000000000000001 when added exactly either.
\<close>

theorem period_totals_rounding_counterexample:
  "load_and_prepare_data example_parse [line_pin, line_nut, line_bolt] =
     Inr [sale_pin, sale_nut, sale_bolt] \<and>
   fst (calculate_kpis [sale_pin, sale_nut, sale_bolt]) = six_tenths_up \<and>
   monthly_sales [sale_pin, sale_nut, sale_bolt] = [(''2010-12'', tenth), (''2011-01'', 1 / 2)] \<and>
   series_sum (map (\<lambda>(m, amount). Some amount) (monthly_sales [sale_pin, sale_nut, sale_bolt])) =
     six_tenths \<and>
   six_tenths \<noteq> fst (calculate_kpis [sale_pin, sale_nut, sale_bolt]) \<and>
   sum_list (map snd (monthly_sales [sale_pin, sale_nut, sale_bolt])) \<noteq>
     fst (calculate_kpis [sale_pin, sale_nut, sale_bolt])"
  by (simp add: pennies_load pennies_kpis pennies_monthly series_sum_def fadd_tenths tenths_differ)

section \<open>Feature Deriver\<close>

text \<open>
  C6, as the code has it. \<^verbatim>\<open>prepare_features\<close> assigns the columns of the frame it is
  given and returns that same frame: the result is the argument, and the store holds
  the changed frame under it. In that frame \<^verbatim>\<open>InvoiceDate\<close> holds the parsed
  timestamps in place of the text, \<^verbatim>\<open>TotalPrice\<close> and \<^verbatim>\<open>Month\<close> are attached, the rows
  are as many and in the same order, and every other column of every row is as it was.
  No other frame of the store changes.

  After the deriver no record is changed: \<^verbatim>\<open>create_line_chart\<close> on the frame the
  deriver left, and \<^verbatim>\<open>update_dashboard\<close> on a frame with the derived columns, assign
  only to the tables they have made themselves, at addresses that were free. Every
  object that is in the store when they are called, the frame of records among them,
  is the same when they return. (\<^verbatim>\<open>calculate_kpis\<close> and \<^verbatim>\<open>descriptive_analysis\<close> make
  no assignment to a frame or a column at all.)
\<close>

theorem prepare_features_in_place:
  assumes "s df = Loaded rows" and "prepare_features parse df s = Inr (df', s')"
  shows "df' = df \<and>
    (\<forall>other. other \<noteq> df \<longrightarrow> s' other = s other) \<and>
    (\<exists>rows'. s' df = Prepared rows' \<and> length rows' = length rows \<and>
       (\<forall>i < length rows.
          InvoiceNo (rows' ! i) = InvoiceNo (rows ! i) \<and>
          Description (rows' ! i) = Description (rows ! i) \<and>
          Quantity (rows' ! i) = Quantity (rows ! i) \<and>
          UnitPrice (rows' ! i) = UnitPrice (rows ! i) \<and>
          Other (rows' ! i) = Other (rows ! i) \<and>
          InvoiceDate (rows' ! i) = Option.bind (InvoiceDate (rows ! i)) parse \<and>
          TotalPrice (rows' ! i) = mul_cells (Quantity (rows ! i)) (UnitPrice (rows ! i)) \<and>
          Month (rows' ! i) = to_period (InvoiceDate (rows' ! i)))) \<and>
    (s' df = Prepared report \<and> s' monthly_at = Free \<longrightarrow>
       (\<exists>s''. create_line_chart_in df monthly_at s' = Inr (Sums (create_line_chart report), s'') \<and>
          s'' df = Prepared report \<and> (\<forall>r. s' r \<noteq> Free \<longrightarrow> s'' r = s' r))) \<and>
    (t served = Dashboard sales \<and> t filtered_at = Free \<and> t top_at = Free \<and> t chart_at = Free \<and>
     top_at \<noteq> chart_at \<longrightarrow>
       (\<exists>t'. update_dashboard_in tie served months filtered_at top_at chart_at t =
            Inr ((calculate_kpis (isin months sales),
                  Counts (''Product'', ''Orders'') (top_products tie (isin months sales)),
                  Sums (monthly_sales (isin months sales))), t') \<and>
          t' served = Dashboard sales \<and> (\<forall>r. t r \<noteq> Free \<longrightarrow> t' r = t r)))"
proof -
  let ?rows' = "map (\<lambda>r. assign_columns (\<lambda>p. p) r (Option.bind (InvoiceDate r) parse)) rows"
  from assms obtain rows' where d: "derive parse (\<lambda>p. p) rows = Inr rows'"
    and res: "df' = df" "s' = s(df := Prepared rows')"
    by (auto simp: prepare_features_def split: sum.splits)
  from d have rows': "rows' = ?rows'" by (rule derive_Inr)
  have "s' df = Prepared ?rows'" using res rows' by simp
  moreover have "length ?rows' = length rows" by simp
  moreover have "\<forall>i < length rows.
          InvoiceNo (?rows' ! i) = InvoiceNo (rows ! i) \<and>
          Description (?rows' ! i) = Description (rows ! i) \<and>
          Quantity (?rows' ! i) = Quantity (rows ! i) \<and>
          UnitPrice (?rows' ! i) = UnitPrice (rows ! i) \<and>
          Other (?rows' ! i) = Other (rows ! i) \<and>
          InvoiceDate (?rows' ! i) = Option.bind (InvoiceDate (rows ! i)) parse \<and>
          TotalPrice (?rows' ! i) = mul_cells (Quantity (rows ! i)) (UnitPrice (rows ! i)) \<and>
          Month (?rows' ! i) = to_period (InvoiceDate (?rows' ! i))"
    by (simp add: assign_columns_def)
  ultimately have columns: "\<exists>rows'. s' df = Prepared rows' \<and> length rows' = length rows \<and>
       (\<forall>i < length rows.
          InvoiceNo (rows' ! i) = InvoiceNo (rows ! i) \<and>
          Description (rows' ! i) = Description (rows ! i) \<and>
          Quantity (rows' ! i) = Quantity (rows ! i) \<and>
          UnitPrice (rows' ! i) = UnitPrice (rows ! i) \<and>
          Other (rows' ! i) = Other (rows ! i) \<and>
          InvoiceDate (rows' ! i) = Option.bind (InvoiceDate (rows ! i)) parse \<and>
          TotalPrice (rows' ! i) = mul_cells (Quantity (rows ! i)) (UnitPrice (rows ! i)) \<and>
          Month (rows' ! i) = to_period (InvoiceDate (rows' ! i)))"
    by (intro exI [of _ ?rows'] conjI)
  have others: "\<forall>other. other \<noteq> df \<longrightarrow> s' other = s other"
    using res by simp
  have chart: "s' df = Prepared report \<and> s' monthly_at = Free \<longrightarrow>
       (\<exists>s''. create_line_chart_in df monthly_at s' = Inr (Sums (create_line_chart report), s'') \<and>
          s'' df = Prepared report \<and> (\<forall>r. s' r \<noteq> Free \<longrightarrow> s'' r = s' r))"
  proof
    assume a: "s' df = Prepared report \<and> s' monthly_at = Free"
    then obtain s'' where "create_line_chart_in df monthly_at s' = Inr (Sums (create_line_chart report), s'')"
      and same: "\<forall>r. s' r \<noteq> Free \<longrightarrow> s'' r = s' r"
      using create_line_chart_in_frame [of s' df report monthly_at] by blast
    moreover from a same have "s'' df = Prepared report" by simp
    ultimately show "\<exists>s''. create_line_chart_in df monthly_at s' = Inr (Sums (create_line_chart report), s'') \<and>
          s'' df = Prepared report \<and> (\<forall>r. s' r \<noteq> Free \<longrightarrow> s'' r = s' r)"
      by blast
  qed
  have dashboard: "t served = Dashboard sales \<and> t filtered_at = Free \<and> t top_at = Free \<and>
      t chart_at = Free \<and> top_at \<noteq> chart_at \<longrightarrow>
       (\<exists>t'. update_dashboard_in tie served months filtered_at top_at chart_at t =
            Inr ((calculate_kpis (isin months sales),
                  Counts (''Product'', ''Orders'') (top_products tie (isin months sales)),
                  Sums (monthly_sales (isin months sales))), t') \<and>
          t' served = Dashboard sales \<and> (\<forall>r. t r \<noteq> Free \<longrightarrow> t' r = t r))"
  proof
    assume a: "t served = Dashboard sales \<and> t filtered_at = Free \<and> t top_at = Free \<and>
      t chart_at = Free \<and> top_at \<noteq> chart_at"
    then obtain t' where "update_dashboard_in tie served months filtered_at top_at chart_at t =
            Inr ((calculate_kpis (isin months sales),
                  Counts (''Product'', ''Orders'') (top_products tie (isin months sales)),
                  Sums (monthly_sales (isin months sales))), t')"
      and same: "\<forall>r. t r \<noteq> Free \<longrightarrow> t' r = t r"
      using update_dashboard_in_frame [of t served sales filtered_at top_at chart_at tie months]
      by blast
    moreover from a same have "t' served = Dashboard sales" by simp
    ultimately show "\<exists>t'. update_dashboard_in tie served months filtered_at top_at chart_at t =
            Inr ((calculate_kpis (isin months sales),
                  Counts (''Product'', ''Orders'') (top_products tie (isin months sales)),
                  Sums (monthly_sales (isin months sales))), t') \<and>
          t' served = Dashboard sales \<and> (\<forall>r. t r \<noteq> Free \<longrightarrow> t' r = t r)"
      by blast
  qed
  show ?thesis
    by (rule conjI [OF res(1) conjI [OF others conjI [OF columns conjI [OF chart dashboard]]]])
qed

theorem prepare_features_in_place_witness:
  "example_store 0 = Loaded [line_a1, line_return] \<and>
   prepare_features example_parse 0 example_store =
     Inr (0, example_store(0 := Prepared [report_a1, report_return])) \<and>
   (example_store(0 := Prepared [report_a1, report_return])) 1 = example_store 1 \<and>
   Quantity report_return = Quantity line_return \<and>
   InvoiceDate report_return = Option.bind (InvoiceDate line_return) example_parse \<and>
   TotalPrice report_return = Some (- 8) \<and> Month report_return = Some (2011, 1) \<and>
   (example_store(0 := Prepared [report_a1, report_return])) 2 = Free \<and>
   create_line_chart_in 0 2 (example_store(0 := Prepared [report_a1, report_return])) =
     Inr (Sums [(''2010-12'', 6), (''2011-01'', - 8)],
          example_store(0 := Prepared [report_a1, report_return],
            2 := Sums [(''2010-12'', 6), (''2011-01'', - 8)])) \<and>
   served_store 0 = Dashboard [sale_a1, sale_a2, sale_b, sale_return] \<and>
   served_store 2 = Free \<and> served_store 3 = Free \<and> served_store 4 = Free \<and>
   update_dashboard_in by_first_seen 0 [''2011-01''] 2 3 4 served_store =
     Inr (((12, Some 6, 2), Counts (''Product'', ''Orders'') [(''CUP'', 1), (''MUG'', 1)],
           Sums [(''2011-01'', 12)]),
          served_store(2 := Dashboard [sale_b, sale_return],
            3 := Counts (''Product'', ''Orders'') [(''CUP'', 1), (''MUG'', 1)],
            4 := Sums [(''2011-01'', 12)]))"
  using prepare_features_in_place [where s = example_store and df = 0
      and rows = "[line_a1, line_return]" and parse = example_parse and df' = 0
      and s' = "example_store(0 := Prepared [report_a1, report_return])"
      and report = "[report_a1, report_return]" and monthly_at = 2
      and t = served_store and served = 0 and sales = "[sale_a1, sale_a2, sale_b, sale_return]"
      and filtered_at = 2 and top_at = 3 and chart_at = 4 and tie = by_first_seen
      and months = "[''2011-01'']"]
  by (simp add: example_prepare example_prepared_chart example_dashboard)
    (simp add: example_store_def served_store_def report_return_def line_return_def example_parse_def)

text \<open>C6 as stated fails: the frame handed to the deriver is not left unchanged.\<close>

theorem prepare_features_mutates_counterexample:
  "example_store 0 = Loaded [line_a1, line_return] \<and>
   prepare_features example_parse 0 example_store =
     Inr (0, example_store(0 := Prepared [report_a1, report_return])) \<and>
   (example_store(0 := Prepared [report_a1, report_return])) 0 \<noteq> example_store 0"
  by (simp add: example_prepare) (simp add: example_store_def)

text \<open>
  C9. On a loaded frame the deriver raises, with the error of \<^verbatim>\<open>pd.to_datetime\<close>, exactly
  when the \<^verbatim>\<open>InvoiceDate\<close> text of some row does not parse; when every text parses it
  returns a frame with a row for every row of its input. This holds for
  \<^verbatim>\<open>prepare_features\<close> and for \<^verbatim>\<open>load_and_prepare_data\<close>, whose deriver works on the
  cleaned rows.
\<close>

theorem deriver_fails_iff:
  assumes "s df = Loaded rows"
  shows "(prepare_features parse df s = Inl InvalidTimestamp \<longleftrightarrow>
            (\<exists>r \<in> set rows. unparseable parse r)) \<and>
         ((\<forall>r \<in> set rows. \<not> unparseable parse r) \<longrightarrow>
            (\<exists>rows'. prepare_features parse df s = Inr (df, s(df := Prepared rows')) \<and>
               length rows' = length rows)) \<and>
         (load_and_prepare_data parse raw = Inl InvalidTimestamp \<longleftrightarrow>
            (\<exists>r \<in> set (clean_data raw). unparseable parse r)) \<and>
         ((\<forall>r \<in> set (clean_data raw). \<not> unparseable parse r) \<longrightarrow>
            (\<exists>df'. load_and_prepare_data parse raw = Inr df' \<and>
               length df' = length (clean_data raw)))"
proof -
  note unfold = prepare_features_Loaded [of s df rows parse, OF assms]
  show ?thesis
  proof (intro conjI impI)
  have "prepare_features parse df s = Inl InvalidTimestamp \<longleftrightarrow>
      derive parse (\<lambda>p. p) rows = Inl InvalidTimestamp"
    by (simp add: unfold split: sum.splits)
  then show "prepare_features parse df s = Inl InvalidTimestamp \<longleftrightarrow>
      (\<exists>r \<in> set rows. unparseable parse r)"
    by (simp add: derive_Inl)
  show "load_and_prepare_data parse raw = Inl InvalidTimestamp \<longleftrightarrow>
      (\<exists>r \<in> set (clean_data raw). unparseable parse r)"
    by (simp add: load_and_prepare_data_def clean_data_def derive_Inl)
next
  assume "\<forall>r \<in> set rows. \<not> unparseable parse r"
  then have "\<not> (\<exists>r \<in> set rows. unparseable parse r)" by simp
  then have "derive parse (\<lambda>p. p) rows =
      Inr (map (\<lambda>r. assign_columns (\<lambda>p. p) r (Option.bind (InvoiceDate r) parse)) rows)"
    by (rule derive_total)
  then have "prepare_features parse df s = Inr (df, s(df := Prepared
        (map (\<lambda>r. assign_columns (\<lambda>p. p) r (Option.bind (InvoiceDate r) parse)) rows)))"
    by (simp add: unfold)
  moreover have "length (map (\<lambda>r. assign_columns (\<lambda>p. p) r (Option.bind (InvoiceDate r) parse)) rows)
      = length rows"
    by simp
  ultimately show "\<exists>rows'. prepare_features parse df s = Inr (df, s(df := Prepared rows')) \<and>
      length rows' = length rows"
    by blast
next
  assume "\<forall>r \<in> set (clean_data raw). \<not> unparseable parse r"
  then have "\<not> (\<exists>r \<in> set (clean_data raw). unparseable parse r)" by simp
  then have "derive parse period_str (clean_data raw) =
      Inr (map (\<lambda>r. assign_columns period_str r (Option.bind (InvoiceDate r) parse)) (clean_data raw))"
    by (rule derive_total)
  then show "\<exists>df'. load_and_prepare_data parse raw = Inr df' \<and> length df' = length (clean_data raw)"
    by (simp add: load_and_prepare_data_def clean_data_def)
  qed
qed

theorem deriver_fails_iff_witness:
  "example_store 1 = Loaded [line_a1, line_bad_date] \<and>
   unparseable example_parse line_bad_date \<and>
   prepare_features example_parse 1 example_store = Inl InvalidTimestamp \<and>
   load_and_prepare_data example_parse [line_a1, line_bad_date] = Inl InvalidTimestamp \<and>
   example_store 0 = Loaded [line_a1, line_return] \<and>
   \<not> unparseable example_parse line_a1 \<and> \<not> unparseable example_parse line_return \<and>
   prepare_features example_parse 0 example_store =
     Inr (0, example_store(0 := Prepared [report_a1, report_return])) \<and>
   clean_data [line_a1, line_return] = [line_a1, line_return] \<and>
   load_and_prepare_data example_parse [line_a1, line_return] = Inr [sale_a1, sale_return]"
  using deriver_fails_iff [of example_store 1 "[line_a1, line_bad_date]" example_parse
      "[line_a1, line_bad_date]"]
    deriver_fails_iff [of example_store 0 "[line_a1, line_return]" example_parse
      "[line_a1, line_return]"]
  by (simp add: example_prepare example_prepare_fails)
    (simp add: example_store_def unparseable_def example_parse_def clean_data_def dropna_def
      drop_duplicates_def has_na_def load_and_prepare_data_def derive_def assign_columns_def
      zfill_def digits.simps digit_def round64_Ints fmul_Ints
      line_a1_def line_return_def line_bad_date_def sale_a1_def sale_return_def)

text \<open>
  C7, as the code has it. The line total is the float64 product of the quantity and the
  unit price, in \<^verbatim>\<open>load_and_prepare_data\<close> and in \<^verbatim>\<open>prepare_features\<close>. For a quantity
  below \<open>2 ^ 53\<close> in absolute value it is the exact product of the quantity and the
  stored price rounded once to float64: within a relative error of \<open>2 ^ - 53\<close> in the
  normal range, and exact when the product is a whole number below \<open>2 ^ 53\<close>.
\<close>

theorem line_total_rounded:
  assumes "load_and_prepare_data parse raw = Inr df" and "r \<in> set df"
  shows "(\<exists>q p. Quantity r = Some q \<and> UnitPrice r = Some p) \<and>
    TotalPrice r = mul_cells (Quantity r) (UnitPrice r) \<and>
    (s frame = Loaded rows \<and> prepare_features parse' frame s = Inr (frame', s') \<longrightarrow>
       (\<exists>rows'. s' frame = Prepared rows' \<and>
          (\<forall>r' \<in> set rows'. TotalPrice r' = mul_cells (Quantity r') (UnitPrice r')))) \<and>
    (\<bar>q\<bar> < 2 ^ 53 \<longrightarrow>
       mul_cells (Some q) (Some p) = Some (round64 (of_int q * p)) \<and>
       (2 powi (- 1022) \<le> \<bar>of_int q * p\<bar> \<and> \<bar>of_int q * p\<bar> < 2 ^ 1023 \<longrightarrow>
          \<bar>round64 (of_int q * p) - of_int q * p\<bar> \<le> \<bar>of_int q * p\<bar> / 2 ^ 53) \<and>
       (of_int q * p \<in> \<int> \<and> \<bar>of_int q * p\<bar> < 2 ^ 53 \<longrightarrow>
          round64 (of_int q * p) = of_int q * p))"
proof -
  from assms obtain q0 p0 where row: "Quantity r = Some q0" "UnitPrice r = Some p0"
      "TotalPrice r = Some (fmul (round64 (of_int q0)) p0)"
    using load_and_prepare_data_rows [of parse raw df r] by blast
  then have present: "\<exists>q p. Quantity r = Some q \<and> UnitPrice r = Some p" by blast
  from row have product: "TotalPrice r = mul_cells (Quantity r) (UnitPrice r)" by simp
  have report: "s frame = Loaded rows \<and> prepare_features parse' frame s = Inr (frame', s') \<longrightarrow>
       (\<exists>rows'. s' frame = Prepared rows' \<and>
          (\<forall>r' \<in> set rows'. TotalPrice r' = mul_cells (Quantity r') (UnitPrice r')))"
  proof
    assume a: "s frame = Loaded rows \<and> prepare_features parse' frame s = Inr (frame', s')"
    then obtain rows' where d: "derive parse' (\<lambda>p. p) rows = Inr rows'"
      and s': "s' = s(frame := Prepared rows')"
      by (auto simp: prepare_features_def split: sum.splits)
    from d have "rows' = map (\<lambda>r. assign_columns (\<lambda>p. p) r (Option.bind (InvoiceDate r) parse')) rows"
      by (rule derive_Inr)
    then have "\<forall>r' \<in> set rows'. TotalPrice r' = mul_cells (Quantity r') (UnitPrice r')"
      by (simp add: assign_columns_def)
    with s' show "\<exists>rows'. s' frame = Prepared rows' \<and>
          (\<forall>r' \<in> set rows'. TotalPrice r' = mul_cells (Quantity r') (UnitPrice r'))"
      by simp
  qed
  have rounding: "\<bar>q\<bar> < 2 ^ 53 \<longrightarrow>
       mul_cells (Some q) (Some p) = Some (round64 (of_int q * p)) \<and>
       (2 powi (- 1022) \<le> \<bar>of_int q * p\<bar> \<and> \<bar>of_int q * p\<bar> < 2 ^ 1023 \<longrightarrow>
          \<bar>round64 (of_int q * p) - of_int q * p\<bar> \<le> \<bar>of_int q * p\<bar> / 2 ^ 53) \<and>
       (of_int q * p \<in> \<int> \<and> \<bar>of_int q * p\<bar> < 2 ^ 53 \<longrightarrow>
          round64 (of_int q * p) = of_int q * p)"
  proof (intro impI conjI)
    assume "\<bar>q\<bar> < 2 ^ 53"
    then show "mul_cells (Some q) (Some p) = Some (round64 (of_int q * p))"
      by (rule mul_cells_rounded)
  next
    assume "2 powi (- 1022) \<le> \<bar>of_int q * p\<bar> \<and> \<bar>of_int q * p\<bar> < 2 ^ 1023"
    then have "2 powi (- 1022) \<le> \<bar>of_int q * p\<bar>" ..
    then show "\<bar>round64 (of_int q * p) - of_int q * p\<bar> \<le> \<bar>of_int q * p\<bar> / 2 ^ 53"
      by (rule round64_relative_error)
  next
    assume "of_int q * p \<in> \<int> \<and> \<bar>of_int q * p\<bar> < 2 ^ 53"
    then show "round64 (of_int q * p) = of_int q * p"
      by (intro round64_Ints) simp_all
  qed
  show ?thesis
    by (rule conjI [OF present conjI [OF product conjI [OF report rounding]]])
qed

theorem line_total_rounded_witness:
  "load_and_prepare_data example_parse [line_three] = Inr [sale_three] \<and>
   Quantity sale_three = Some 3 \<and> UnitPrice sale_three = Some tenth \<and>
   TotalPrice sale_three = Some three_tenths_up \<and>
   prepare_features example_parse 0 ((\<lambda>_. Free)(0 := Loaded [line_three])) =
     Inr (0, (\<lambda>_. Free)(0 := Prepared [report_three])) \<and>
   TotalPrice report_three = Some three_tenths_up \<and>
   mul_cells (Some 3) (Some tenth) = Some three_tenths_up \<and>
   round64 (3 * tenth) = three_tenths_up \<and>
   2 powi (- 1022) \<le> \<bar>3 * tenth\<bar> \<and> \<bar>3 * tenth\<bar> < 2 ^ 1023 \<and>
   \<bar>three_tenths_up - 3 * tenth\<bar> \<le> \<bar>3 * tenth\<bar> / 2 ^ 53 \<and>
   mul_cells (Some 3) (Some 2) = Some 6"
  using line_total_rounded [where parse = example_parse and raw = "[line_three]"
      and df = "[sale_three]" and r = sale_three
      and s = "(\<lambda>_. Free)(0 := Loaded [line_three])" and frame = 0 and rows = "[line_three]"
      and parse' = example_parse and frame' = 0
      and s' = "(\<lambda>_. Free)(0 := Prepared [report_three])" and q = 3 and p = tenth]
    line_total_rounded [where parse = example_parse and raw = "[line_three]"
      and df = "[sale_three]" and r = sale_three
      and s = "(\<lambda>_. Free)(0 := Loaded [line_three])" and frame = 0 and rows = "[line_three]"
      and parse' = example_parse and frame' = 0
      and s' = "(\<lambda>_. Free)(0 := Prepared [report_three])" and q = 3 and p = 2]
  by (simp add: three_load three_prepare round64_Ints fmul_three_tenth)
    (simp add: sale_three_def report_three_def tenth_def three_tenths_up_def)

text \<open>
  C7 as stated fails. The file holds the price 0.1; the stored price is the float64
  value nearest to it. Three pieces at that price get the line total
  0.30000000000000004, which is neither three times the stored price, nor 0.3, nor the
  float64 value nearest to 0.3.
\<close>

theorem line_total_rounding_counterexample:
  "round64 (1 / 10) = tenth \<and> round64 (3 / 10) = three_tenths \<and>
   load_and_prepare_data example_parse [line_three] = Inr [sale_three] \<and>
   Quantity sale_three = Some 3 \<and> UnitPrice sale_three = Some tenth \<and>
   TotalPrice sale_three = Some three_tenths_up \<and>
   prepare_features example_parse 0 ((\<lambda>_. Free)(0 := Loaded [line_three])) =
     Inr (0, (\<lambda>_. Free)(0 := Prepared [report_three])) \<and>
   Quantity report_three = Some 3 \<and> UnitPrice report_three = Some tenth \<and>
   TotalPrice report_three = Some three_tenths_up \<and>
   three_tenths_up \<noteq> 3 * tenth \<and> three_tenths_up \<noteq> 3 / 10 \<and> three_tenths_up \<noteq> three_tenths"
  by (simp add: tenth_nearest three_load three_prepare tenths_differ)
    (simp add: sale_three_def report_three_def three_tenths_def three_tenths_up_def)

section \<open>Returns\<close>



end
